theory Spec2Isabelle
  imports Main "HOL-Library.Word" "HOL-Library.AList"
begin

section \<open>Bytes, errors and the library functions the program calls\<close>

type_synonym byte = "8 word"
type_synonym bytes = "byte list"

text \<open>
  Go errors are values. Errors of the operating system keep the path they arose at;
  \<open>ErrNotExist\<close> is the one for which \<open>os.IsNotExist\<close> holds. \<open>Wrapped msg e\<close> is
  \<open>fmt.Errorf("msg: %w", e)\<close>; \<open>ObjectNotFound\<close> and \<open>ObjectCorruption\<close> are the two
  errors \<open>CAS.Get\<close> builds itself.
\<close>

datatype error =
    ErrNotExist string
  | ErrIO string
  | ErrRead
  | ErrRand
  | ErrBadData
  | ObjectNotFound string
  | ObjectCorruption string
  | UnknownAlgorithm string
  | CiphertextTooShort
  | NilDereference
  | Wrapped string error

text \<open>
  The rolling hash of package \<open>rabinkarp64\<close> is library code. Its state is represented
  by the calls made on it so far, most recent first, and \<open>Sum64\<close> is an arbitrary function
  of that history: every deterministic hasher is an instance.
\<close>

datatype hcall = HWrite bytes | HRoll byte | HReset

datatype zlevel = EncoderLevelFromZstd int | SpeedFastest

text \<open>
  The functions of the Go standard library and of third-party packages that the program
  calls and whose code is not part of the repository. They are parameters of the model.
\<close>

record lib =
  sha256hex :: "bytes \<Rightarrow> string"
  rk_sum64 :: "hcall list \<Rightarrow> 64 word"
  zstd_encode :: "zlevel \<Rightarrow> bytes \<Rightarrow> bytes"
  zstd_decode :: "bytes \<Rightarrow> bytes option"
  gcm_seal :: "bytes \<Rightarrow> bytes \<Rightarrow> bytes \<Rightarrow> bytes"
  gcm_open :: "bytes \<Rightarrow> bytes \<Rightarrow> bytes \<Rightarrow> bytes option"
  fp_match :: "string \<Rightarrow> string \<Rightarrow> bool"
  sprintf_d :: "int \<Rightarrow> string"

section \<open>Paths and the file system\<close>

text \<open>
  \<open>filepath.Clean\<close> is modelled on paths that have no \<open>.\<close> or \<open>..\<close> elements:
  it collapses repeated separators and drops a trailing one. \<open>filepath.Join\<close> ignores
  empty elements, joins the rest with the separator and cleans the result.
\<close>

fun intercalate_sep :: "string list \<Rightarrow> string" where
  "intercalate_sep [] = []"
| "intercalate_sep [x] = x"
| "intercalate_sep (x # y # ys) = x @ CHR ''/'' # intercalate_sep (y # ys)"

fun squeeze :: "string \<Rightarrow> string" where
  "squeeze (a # b # r) =
     (if a = CHR ''/'' \<and> b = CHR ''/'' then squeeze (b # r) else a # squeeze (b # r))"
| "squeeze [a] = [a]"
| "squeeze [] = []"

definition strip_slashes :: "string \<Rightarrow> string" where
  "strip_slashes path = rev (dropWhile (\<lambda>c. c = CHR ''/'') (rev path))"

definition Clean :: "string \<Rightarrow> string" where
  "Clean path =
     (if path = [] then ''.''
      else let q = strip_slashes (squeeze path) in if q = [] then ''/'' else q)"

definition Join :: "string list \<Rightarrow> string" where
  "Join elems =
     (let es = filter (\<lambda>e. e \<noteq> []) elems in
      if es = [] then [] else Clean (intercalate_sep es))"

definition Base :: "string \<Rightarrow> string" where
  "Base path =
     (if path = [] then ''.''
      else let b = rev (takeWhile (\<lambda>c. c \<noteq> CHR ''/'') (rev (strip_slashes path)))
           in if b = [] then ''/'' else b)"

definition Dir :: "string \<Rightarrow> string" where
  "Dir path = Clean (rev (dropWhile (\<lambda>c. c \<noteq> CHR ''/'') (rev path)))"

text \<open>
  The file system holds the regular files by path; directories are implicit. A failure
  of the operating system other than "does not exist" (permissions, a full disk) is an
  input of the model: \<open>faults fs op p\<close> says that operation \<open>op\<close> fails at path \<open>p\<close>.
  A write that fails leaves the file system as it was.
\<close>

datatype fsop = OpStat | OpMkdir | OpCreate | OpWrite | OpRead | OpRemove | OpChmod | OpChtimes

record filesys =
  files :: "string \<rightharpoonup> bytes"
  faults :: "fsop \<Rightarrow> string \<Rightarrow> bool"

definition Stat :: "filesys \<Rightarrow> string \<Rightarrow> error option" where
  "Stat fs p =
     (case files fs p of
        None \<Rightarrow> Some (ErrNotExist p)
      | Some d \<Rightarrow> if faults fs OpStat p then Some (ErrIO p) else None)"

definition MkdirAll :: "filesys \<Rightarrow> string \<Rightarrow> error option" where
  "MkdirAll fs p = (if faults fs OpMkdir p then Some (ErrIO p) else None)"

definition WriteFile :: "filesys \<Rightarrow> string \<Rightarrow> bytes \<Rightarrow> error + filesys" where
  "WriteFile fs p d =
     (if faults fs OpWrite p then Inl (ErrIO p)
      else Inr (fs\<lparr>files := (files fs)(p \<mapsto> d)\<rparr>))"

definition ReadFile :: "filesys \<Rightarrow> string \<Rightarrow> error + bytes" where
  "ReadFile fs p =
     (case files fs p of
        None \<Rightarrow> Inl (ErrNotExist p)
      | Some d \<Rightarrow> if faults fs OpRead p then Inl (ErrIO p) else Inr d)"

definition Remove :: "filesys \<Rightarrow> string \<Rightarrow> error option \<times> filesys" where
  "Remove fs p =
     (case files fs p of
        None \<Rightarrow> (Some (ErrNotExist p), fs)
      | Some d \<Rightarrow> if faults fs OpRemove p then (Some (ErrIO p), fs)
                  else (None, fs\<lparr>files := (files fs)(p := None)\<rparr>))"

definition IsNotExist :: "error \<Rightarrow> bool" where
  "IsNotExist e = (case e of ErrNotExist p \<Rightarrow> True | _ \<Rightarrow> False)"

section \<open>The content-addressable store (internal/store/cas.go)\<close>

record CAS =
  basePath :: string
  refCount :: "string \<rightharpoonup> int"

definition objectPath :: "CAS \<Rightarrow> string \<Rightarrow> string" where
  "objectPath c hash =
     (if length hash < 2 then Join [basePath c, hash]
      else Join [basePath c, take 2 hash, hash])"

definition Has :: "CAS \<Rightarrow> filesys \<Rightarrow> string \<Rightarrow> bool" where
  "Has c fs hash = (Stat fs (objectPath c hash) = None)"

text \<open>Reading a key that is absent from a Go map gives the zero value.\<close>

definition count_of :: "CAS \<Rightarrow> string \<Rightarrow> int" where
  "count_of c hash = (case refCount c hash of None \<Rightarrow> 0 | Some n \<Rightarrow> n)"

definition Put :: "lib \<Rightarrow> CAS \<Rightarrow> filesys \<Rightarrow> bytes \<Rightarrow> (error + string) \<times> CAS \<times> filesys" where
  "Put L c fs data =
     (let hashStr = sha256hex L data in
      if Has c fs hashStr
      then (Inr hashStr, c\<lparr>refCount := (refCount c)(hashStr \<mapsto> count_of c hashStr + 1)\<rparr>, fs)
      else
        let objPath = objectPath c hashStr in
        case MkdirAll fs (Dir objPath) of
          Some e \<Rightarrow> (Inl (Wrapped ''failed to create object directory'' e), c, fs)
        | None \<Rightarrow>
           (case WriteFile fs objPath data of
              Inl e \<Rightarrow> (Inl (Wrapped ''failed to write object'' e), c, fs)
            | Inr fs' \<Rightarrow> (Inr hashStr, c\<lparr>refCount := (refCount c)(hashStr \<mapsto> 1)\<rparr>, fs')))"

definition Get :: "lib \<Rightarrow> CAS \<Rightarrow> filesys \<Rightarrow> string \<Rightarrow> error + bytes" where
  "Get L c fs hash =
     (case ReadFile fs (objectPath c hash) of
        Inl e \<Rightarrow> if IsNotExist e then Inl (ObjectNotFound hash) else Inl e
      | Inr data \<Rightarrow>
          if sha256hex L data \<noteq> hash then Inl (ObjectCorruption hash) else Inr data)"

definition Delete :: "CAS \<Rightarrow> filesys \<Rightarrow> string \<Rightarrow> error option \<times> CAS \<times> filesys" where
  "Delete c fs hash =
     (case refCount c hash of
        Some count \<Rightarrow>
          if count > 1
          then (None, c\<lparr>refCount := (refCount c)(hash \<mapsto> count - 1)\<rparr>, fs)
          else (let c' = c\<lparr>refCount := (refCount c)(hash := None)\<rparr>;
                    (r, fs') = Remove fs (objectPath c hash)
                in (r, c', fs'))
      | None \<Rightarrow> (let (r, fs') = Remove fs (objectPath c hash) in (r, c, fs')))"

text \<open>Calling \<open>Put\<close> on the same data, and \<open>Delete\<close> on the same digest, several times in a row.\<close>

fun put_times :: "nat \<Rightarrow> lib \<Rightarrow> bytes \<Rightarrow> CAS \<times> filesys \<Rightarrow> (error + string) list \<times> CAS \<times> filesys" where
  "put_times 0 L data (c, fs) = ([], c, fs)"
| "put_times (Suc n) L data (c, fs) =
     (let (r, c', fs') = Put L c fs data;
          (rs, c'', fs'') = put_times n L data (c', fs')
      in (r # rs, c'', fs''))"

fun delete_times :: "nat \<Rightarrow> string \<Rightarrow> CAS \<times> filesys \<Rightarrow> error option list \<times> CAS \<times> filesys" where
  "delete_times 0 hash (c, fs) = ([], c, fs)"
| "delete_times (Suc n) hash (c, fs) =
     (let (r, c', fs') = Delete c fs hash;
          (rs, c'', fs'') = delete_times n hash (c', fs')
      in (r # rs, c'', fs''))"

definition fault_free :: "filesys \<Rightarrow> bool" where
  "fault_free fs = (\<forall>op p. \<not> faults fs op p)"


section \<open>The chunker (internal/chunker)\<close>

record Chunk =
  ChunkHash :: string
  ChunkSize :: int
  ChunkOffset :: int
  ChunkData :: bytes

record Chunker =
  minSize :: int
  avgSize :: int
  maxSize :: int
  mask :: "64 word"

definition DefaultMinSize :: int where "DefaultMinSize = 512 * 1024"
definition DefaultAvgSize :: int where "DefaultAvgSize = 1024 * 1024"
definition DefaultMaxSize :: int where "DefaultMaxSize = 4 * 1024 * 1024"

definition chunker_New :: "int \<Rightarrow> int \<Rightarrow> int \<Rightarrow> Chunker" where
  "chunker_New minSz avgSz maxSz =
     (let minSz = (if minSz \<le> 0 then DefaultMinSize else minSz);
          avgSz = (if avgSz \<le> 0 then DefaultAvgSize else avgSz);
          maxSz = (if maxSz \<le> 0 then DefaultMaxSize else maxSz)
      in \<lparr>minSize = minSz, avgSize = avgSz, maxSize = maxSz, mask = word_of_int (avgSz - 1)\<rparr>)"

definition chunker_NewDefault :: Chunker where
  "chunker_NewDefault = chunker_New DefaultMinSize DefaultAvgSize DefaultMaxSize"

definition createChunk :: "lib \<Rightarrow> bytes \<Rightarrow> int \<Rightarrow> Chunk" where
  "createChunk L data off =
     \<lparr>ChunkHash = sha256hex L data, ChunkSize = int (length data), ChunkOffset = off,
      ChunkData = data\<rparr>"

text \<open>The local variables of \<open>Chunker.Chunk\<close>.\<close>

record cstate =
  chunks :: "Chunk list"
  offset :: int
  window :: bytes
  windowIdx :: nat
  windowFull :: bool
  hasher :: "hcall list"
  currentChunk :: bytes

definition chunk_init :: cstate where
  "chunk_init =
     \<lparr>chunks = [], offset = 0, window = replicate 64 0, windowIdx = 0, windowFull = False,
      hasher = [HWrite (replicate 64 0)], currentChunk = []\<rparr>"

text \<open>The body of the inner loop, for one byte \<open>b\<close> of the buffer.\<close>

definition chunk_byte :: "lib \<Rightarrow> Chunker \<Rightarrow> cstate \<Rightarrow> byte \<Rightarrow> cstate" where
  "chunk_byte L c s b =
     (let cur = currentChunk s @ [b];
          oldByte = window s ! windowIdx s;
          win = (window s)[windowIdx s := b];
          idx = (windowIdx s + 1) mod length win;
          full = (if idx = 0 then True else windowFull s);
          h = (if full then HRoll oldByte # hasher s else hasher s);
          chunkLen = int (length cur);
          shouldSplit =
            (if chunkLen \<ge> maxSize c then True
             else if chunkLen \<ge> minSize c then and (rk_sum64 L h) (mask c) = 0
             else False)
      in if shouldSplit
         then s\<lparr>chunks := chunks s @ [createChunk L cur (offset s)],
                offset := offset s + chunkLen,
                currentChunk := [],
                window := win,
                hasher := HWrite win # HReset # h,
                windowFull := False,
                windowIdx := 0\<rparr>
         else s\<lparr>currentChunk := cur, window := win, windowIdx := idx, windowFull := full,
                hasher := h\<rparr>)"

text \<open>
  A reader is the list of the results of its \<open>Read\<close> calls: the bytes delivered and the
  error returned with them. Once the list is used up the reader reports \<open>(0, io.EOF)\<close>.
\<close>

datatype rerr = EOF | ReadFailure

type_synonym reader = "(bytes \<times> rerr option) list"

fun chunk_loop :: "lib \<Rightarrow> Chunker \<Rightarrow> reader \<Rightarrow> cstate \<Rightarrow> error + cstate" where
  "chunk_loop L c [] s = Inr s"
| "chunk_loop L c ((d, err) # rs) s =
     (if d = [] then
        (case err of
           Some EOF \<Rightarrow> Inr s
         | Some ReadFailure \<Rightarrow> Inl ErrRead
         | None \<Rightarrow> chunk_loop L c rs s)
      else
        let s' = foldl (chunk_byte L c) s d in
        if err = Some EOF then Inr s' else chunk_loop L c rs s')"

definition chunk_finish :: "lib \<Rightarrow> cstate \<Rightarrow> Chunk list" where
  "chunk_finish L s =
     (if length (currentChunk s) > 0
      then chunks s @ [createChunk L (currentChunk s) (offset s)]
      else chunks s)"

definition Chunker_Chunk :: "lib \<Rightarrow> Chunker \<Rightarrow> reader \<Rightarrow> error + Chunk list" where
  "Chunker_Chunk L c rd =
     (case chunk_loop L c rd chunk_init of
        Inl e \<Rightarrow> Inl e
      | Inr s \<Rightarrow> Inr (chunk_finish L s))"

text \<open>
  The byte sequence a reader delivers to the loop of \<open>Chunker.Chunk\<close>, or the error that
  ends the loop.
\<close>

fun delivered :: "reader \<Rightarrow> error + bytes" where
  "delivered [] = Inr []"
| "delivered ((d, err) # rs) =
     (if d = [] then
        (case err of
           Some EOF \<Rightarrow> Inr []
         | Some ReadFailure \<Rightarrow> Inl ErrRead
         | None \<Rightarrow> delivered rs)
      else if err = Some EOF then Inr d
      else (case delivered rs of Inl e \<Rightarrow> Inl e | Inr X \<Rightarrow> Inr (d @ X)))"

definition chunk_triples :: "Chunk list \<Rightarrow> (int \<times> int \<times> string) list" where
  "chunk_triples cs = map (\<lambda>ch. (ChunkOffset ch, ChunkSize ch, ChunkHash ch)) cs"

text \<open>
  The invariant of the loop after the bytes \<open>X\<close> have been consumed: the chunks emitted so
  far followed by the bytes of the chunk in progress are \<open>X\<close>, every emitted chunk has between
  \<open>minSize\<close> and \<open>maxSize\<close> bytes, and the chunk in progress has fewer than \<open>maxSize\<close>.
\<close>

definition chunk_inv :: "Chunker \<Rightarrow> cstate \<Rightarrow> bytes \<Rightarrow> bool" where
  "chunk_inv c s X =
     (concat (map ChunkData (chunks s)) @ currentChunk s = X
      \<and> (\<forall>ch \<in> set (chunks s).
            minSize c \<le> int (length (ChunkData ch)) \<and> int (length (ChunkData ch)) \<le> maxSize c
            \<and> ChunkSize ch = int (length (ChunkData ch)))
      \<and> int (length (currentChunk s)) < maxSize c)"

section \<open>Pattern matching of the scanner and of restore\<close>

fun HasPrefix :: "string \<Rightarrow> string \<Rightarrow> bool" where
  "HasPrefix s [] = True"
| "HasPrefix [] (p # ps) = False"
| "HasPrefix (c # s) (p # ps) = (c = p \<and> HasPrefix s ps)"

fun Contains :: "string \<Rightarrow> string \<Rightarrow> bool" where
  "Contains [] substr = (substr = [])"
| "Contains (c # s) substr = (HasPrefix (c # s) substr \<or> Contains s substr)"

text \<open>\<open>strings.ReplaceAll(pattern, "**", "*")\<close>: non-overlapping occurrences, left to right.\<close>

fun replace_double_star :: "string \<Rightarrow> string" where
  "replace_double_star (a # b # r) =
     (if a = CHR ''*'' \<and> b = CHR ''*'' then CHR ''*'' # replace_double_star r
      else a # replace_double_star (b # r))"
| "replace_double_star [a] = [a]"
| "replace_double_star [] = []"

record Scanner =
  exclusions :: "string list"
  workers :: int

definition scanner_New :: "string list \<Rightarrow> int \<Rightarrow> Scanner" where
  "scanner_New excl w = \<lparr>exclusions = excl, workers = (if w \<le> 0 then 4 else w)\<rparr>"

fun exclude_loop :: "lib \<Rightarrow> string list \<Rightarrow> string \<Rightarrow> string \<Rightarrow> bool" where
  "exclude_loop L [] relPath name = False"
| "exclude_loop L (pattern # ps) relPath name =
     (if pattern = name then True
      else if fp_match L pattern name then True
      else if Contains relPath pattern then True
      else exclude_loop L ps relPath name)"

definition shouldExclude :: "lib \<Rightarrow> Scanner \<Rightarrow> string \<Rightarrow> string \<Rightarrow> bool" where
  "shouldExclude L s relPath name = exclude_loop L (exclusions s) relPath name"


definition matchPattern :: "lib \<Rightarrow> string \<Rightarrow> string \<Rightarrow> bool" where
  "matchPattern L path pattern =
     (if fp_match L pattern path then True
      else if fp_match L pattern (Base path) then True
      else if Contains pattern ''**''
           then (if fp_match L (replace_double_star pattern) path then True else False)
      else False)"

fun any_match :: "lib \<Rightarrow> string \<Rightarrow> string list \<Rightarrow> bool" where
  "any_match L path [] = False"
| "any_match L path (pattern # ps) = (if matchPattern L path pattern then True else any_match L path ps)"

definition shouldRestore :: "lib \<Rightarrow> string \<Rightarrow> string list \<Rightarrow> string list \<Rightarrow> bool" where
  "shouldRestore L path includes excludes =
     (let included = (length includes = 0);
          included = (if any_match L path includes then True else included)
      in if \<not> included then False
         else if any_match L path excludes then False
         else True)"

text \<open>
  An instance of the library's \<open>filepath.Match\<close> for patterns made of literal characters,
  \<open>*\<close> (any run of non-separator characters) and \<open>?\<close> (one non-separator character).
  It serves to evaluate the model on examples; the theorems hold for every matcher.
\<close>

fun glob :: "string \<Rightarrow> string \<Rightarrow> bool" where
  "glob [] [] = True"
| "glob [] (c # cs) = False"
| "glob (p # ps) [] = (p = CHR ''*'' \<and> glob ps [])"
| "glob (p # ps) (c # cs) =
     (if p = CHR ''*'' then glob ps (c # cs) \<or> (c \<noteq> CHR ''/'' \<and> glob (p # ps) cs)
      else if p = CHR ''?'' then c \<noteq> CHR ''/'' \<and> glob ps cs
      else p = c \<and> glob ps cs)"


section \<open>The data model (pkg/models/types.go)\<close>

record FileNode =
  Path :: string
  Name :: string
  IsDir :: bool
  Mode :: nat
  Size :: int
  ModTime :: int
  Hash :: string
  Chunks :: "string list"

text \<open>
  \<open>Files\<close> is a Go map from the relative path to the node. It is kept as an association
  list with one entry for each key; the order of the list is the order in which a \<open>range\<close>
  loop visits the map, which Go leaves unspecified.
\<close>

record FileTree =
  Root :: FileNode
  Files :: "(string \<times> FileNode) list"
  TotalSize :: int
  FileCount :: int
  DirCount :: int

record SnapshotStats =
  StatsTotalSize :: int
  StoredSize :: int
  ChunkCount :: int
  NewChunks :: int
  DeduplicatedSize :: int
  Duration :: int
  FilesAdded :: int
  FilesModified :: int
  FilesDeleted :: int
  FilesUnchanged :: int

record Snapshot =
  ID :: string
  Timestamp :: int
  Parent :: string
  Description :: string
  Tree :: FileTree
  Stats :: SnapshotStats
  Encrypted :: bool
  Compressed :: bool

datatype DiffType = DiffAdded | DiffModified | DiffDeleted | DiffUnchanged

record FileDiff =
  DiffPath :: string
  DiffKind :: DiffType
  OldHash :: string
  NewHash :: string
  OldSize :: int
  NewSize :: int
  OldChunks :: "string list"
  NewChunksOf :: "string list"

record RestoreOptions =
  SnapshotID :: string
  TargetPath :: string
  IncludePattern :: "string list"
  ExcludePattern :: "string list"
  Overwrite :: bool
  PreservePerms :: bool
  DryRun :: bool

section \<open>The source tree and the scanner (internal/scanner/scanner.go)\<close>

record FileInfo =
  fiName :: string
  fiIsDir :: bool
  fiMode :: nat
  fiSize :: int
  fiModTime :: int

text \<open>
  What \<open>filepath.Walk\<close> finds below a path: an entry with its \<open>FileInfo\<close>, the error of
  reading its names when it is a directory, and its children in the order of their names;
  or an entry whose \<open>Lstat\<close> fails.
\<close>

datatype srctree =
    SrcNode FileInfo "error option" "srctree list"
  | SrcErr string error

fun entry_name :: "srctree \<Rightarrow> string" where
  "entry_name (SrcNode info rderr kids) = fiName info"
| "entry_name (SrcErr nm e) = nm"

text \<open>\<open>filepath.Rel\<close> on the paths \<open>Walk\<close> builds below its root.\<close>

definition Rel :: "string \<Rightarrow> string \<Rightarrow> string" where
  "Rel base target =
     (if target = base then ''.''
      else if base = ''/'' then drop 1 target
      else drop (length base + 1) target)"

datatype wret = RNil | RSkipDir | RErr error

text \<open>The function that \<open>Scan\<close> passes to \<open>filepath.Walk\<close>.\<close>

definition scan_visit ::
  "lib \<Rightarrow> Scanner \<Rightarrow> string \<Rightarrow> string \<Rightarrow> FileInfo option \<Rightarrow> error option \<Rightarrow> FileTree
     \<Rightarrow> wret \<times> FileTree" where
  "scan_visit L s sourcePath path info err tree =
     (case err of
        Some e \<Rightarrow> (RErr e, tree)
      | None \<Rightarrow>
         (case info of
            None \<Rightarrow> (RErr NilDereference, tree)
          | Some fi \<Rightarrow>
             let relPath = Rel sourcePath path in
             if shouldExclude L s relPath (fiName fi)
             then (if fiIsDir fi then (RSkipDir, tree) else (RNil, tree))
             else
               let node = \<lparr>Path = path, Name = fiName fi, IsDir = fiIsDir fi, Mode = fiMode fi,
                           Size = fiSize fi, ModTime = fiModTime fi, Hash = [], Chunks = []\<rparr>;
                   tree1 = (if fiIsDir fi then tree\<lparr>DirCount := DirCount tree + 1\<rparr>
                            else tree\<lparr>FileCount := FileCount tree + 1,
                                      TotalSize := TotalSize tree + fiSize fi\<rparr>)
               in (RNil, tree1\<lparr>Files := AList.update relPath node (Files tree1)\<rparr>)))"


text \<open>\<open>filepath.Walk\<close>: the function \<open>walk\<close> of the library and its loop over the names.\<close>

fun walk :: "lib \<Rightarrow> Scanner \<Rightarrow> string \<Rightarrow> string \<Rightarrow> srctree \<Rightarrow> FileTree \<Rightarrow> wret \<times> FileTree"
and walk_names :: "lib \<Rightarrow> Scanner \<Rightarrow> string \<Rightarrow> string \<Rightarrow> srctree list \<Rightarrow> FileTree \<Rightarrow> wret \<times> FileTree"
where
  "walk L s sp path (SrcErr nm e) tree = scan_visit L s sp path None (Some e) tree"
| "walk L s sp path (SrcNode info rderr kids) tree =
     (if \<not> fiIsDir info then scan_visit L s sp path (Some info) None tree
      else
        (case scan_visit L s sp path (Some info) rderr tree of
           (RNil, tree1) \<Rightarrow>
             if rderr \<noteq> None then (RNil, tree1) else walk_names L s sp path kids tree1
         | (r, tree1) \<Rightarrow> (r, tree1)))"
| "walk_names L s sp path [] tree = (RNil, tree)"
| "walk_names L s sp path (k # ks) tree =
     (case walk L s sp (Join [path, entry_name k]) k tree of
        (RNil, tree1) \<Rightarrow> walk_names L s sp path ks tree1
      | (RSkipDir, tree1) \<Rightarrow>
          (case k of
             SrcErr nm e \<Rightarrow> walk_names L s sp path ks tree1
           | SrcNode info rderr kids \<Rightarrow>
               if \<not> fiIsDir info then (RSkipDir, tree1) else walk_names L s sp path ks tree1)
      | (RErr e, tree1) \<Rightarrow> (RErr e, tree1))"

definition Walk :: "lib \<Rightarrow> Scanner \<Rightarrow> string \<Rightarrow> srctree \<Rightarrow> FileTree \<Rightarrow> error option \<times> FileTree" where
  "Walk L s root src tree =
     (case walk L s root root src tree of
        (RErr e, tree1) \<Rightarrow> (Some e, tree1)
      | (r, tree1) \<Rightarrow> (None, tree1))"



text \<open>
  The world outside the program: the files of the repository, the records under
  \<open>snapshots/\<close> (by file name, each holding the snapshot its JSON text decodes to, or
  nothing when the text is malformed), the tree found at a source path, what opening a
  source file and reading it delivers, the random source and the clock.
\<close>

record world =
  repo :: filesys
  snapfiles :: "(string \<times> Snapshot option) list"
  srcAt :: "string \<Rightarrow> srctree"
  opens :: "string \<Rightarrow> error + reader"
  rnd :: "nat \<Rightarrow> bytes option"
  rpos :: nat
  clock :: "nat \<Rightarrow> int"
  ticks :: nat

definition Now :: "world \<Rightarrow> int \<times> world" where
  "Now w = (clock w (ticks w), w\<lparr>ticks := ticks w + 1\<rparr>)"

definition Scan :: "lib \<Rightarrow> Scanner \<Rightarrow> world \<Rightarrow> string \<Rightarrow> error + FileTree" where
  "Scan L s w sourcePath =
     (case srcAt w sourcePath of
        SrcErr nm e \<Rightarrow> Inl e
      | SrcNode info rderr kids \<Rightarrow>
          let tree = \<lparr>Root = \<lparr>Path = sourcePath, Name = Base sourcePath, IsDir = fiIsDir info,
                               Mode = fiMode info, Size = 0, ModTime = fiModTime info,
                               Hash = [], Chunks = []\<rparr>,
                      Files = [], TotalSize = 0, FileCount = 0, DirCount = 0\<rparr>
          in (case Walk L s sourcePath (SrcNode info rderr kids) tree of
                (Some e, tree1) \<Rightarrow> Inl e
              | (None, tree1) \<Rightarrow> Inr tree1))"

text \<open>\<open>io.Copy\<close> into the hasher: the bytes read up to the end of the file, or the error.\<close>

fun io_copy :: "reader \<Rightarrow> error + bytes" where
  "io_copy [] = Inr []"
| "io_copy ((d, err) # rs) =
     (case err of
        Some EOF \<Rightarrow> Inr d
      | Some ReadFailure \<Rightarrow> Inl ErrRead
      | None \<Rightarrow> (case io_copy rs of Inl e \<Rightarrow> Inl e | Inr X \<Rightarrow> Inr (d @ X)))"

definition hashFile :: "lib \<Rightarrow> world \<Rightarrow> string \<Rightarrow> error + string" where
  "hashFile L w path =
     (case opens w path of
        Inl e \<Rightarrow> Inl e
      | Inr rd \<Rightarrow> (case io_copy rd of Inl e \<Rightarrow> Inl e | Inr d \<Rightarrow> Inr (sha256hex L d)))"

fun set_node :: "string \<Rightarrow> (FileNode \<Rightarrow> FileNode) \<Rightarrow> (string \<times> FileNode) list
                   \<Rightarrow> (string \<times> FileNode) list" where
  "set_node k f [] = []"
| "set_node k f ((k', n) # rest) = (if k' = k then (k', f n) # rest else (k', n) # set_node k f rest)"

fun hash_files :: "lib \<Rightarrow> world \<Rightarrow> (string \<times> FileNode) list \<Rightarrow> FileTree \<Rightarrow> error + FileTree" where
  "hash_files L w [] tree = Inr tree"
| "hash_files L w ((relPath, node) # rest) tree =
     (if IsDir node then hash_files L w rest tree
      else (case hashFile L w (Path node) of
              Inl e \<Rightarrow> Inl e
            | Inr h \<Rightarrow>
                hash_files L w rest (tree\<lparr>Files := set_node relPath (\<lambda>n. n\<lparr>Hash := h\<rparr>) (Files tree)\<rparr>)))"

definition ScanWithHashes :: "lib \<Rightarrow> Scanner \<Rightarrow> world \<Rightarrow> string \<Rightarrow> error + FileTree" where
  "ScanWithHashes L s w sourcePath =
     (case Scan L s w sourcePath of
        Inl e \<Rightarrow> Inl e
      | Inr tree \<Rightarrow> hash_files L w (Files tree) tree)"

section \<open>Compression and encryption (internal/compress, internal/crypto)\<close>

record Compressor =
  algorithm :: string
  level :: int

definition Compress :: "lib \<Rightarrow> Compressor \<Rightarrow> bytes \<Rightarrow> error + bytes" where
  "Compress L c data =
     (if algorithm c = ''zstd'' then Inr (zstd_encode L (EncoderLevelFromZstd (level c)) data)
      else if algorithm c = ''lz4'' then Inr (zstd_encode L SpeedFastest data)
      else if algorithm c = ''none'' then Inr data
      else Inl (UnknownAlgorithm (algorithm c)))"

definition zstd_DecodeAll :: "lib \<Rightarrow> bytes \<Rightarrow> error + bytes" where
  "zstd_DecodeAll L data = (case zstd_decode L data of None \<Rightarrow> Inl ErrBadData | Some d \<Rightarrow> Inr d)"

definition Decompress :: "lib \<Rightarrow> Compressor \<Rightarrow> bytes \<Rightarrow> error + bytes" where
  "Decompress L c data =
     (if algorithm c = ''zstd'' then zstd_DecodeAll L data
      else if algorithm c = ''lz4'' then zstd_DecodeAll L data
      else if algorithm c = ''none'' then Inr data
      else Inl (UnknownAlgorithm (algorithm c)))"

record Encryptor =
  key :: bytes
  salt :: bytes

definition nonceSize :: nat where "nonceSize = 12"

definition Encrypt :: "lib \<Rightarrow> Encryptor \<Rightarrow> bytes \<Rightarrow> world \<Rightarrow> (error + bytes) \<times> world" where
  "Encrypt L e plaintext w =
     (let w1 = w\<lparr>rpos := rpos w + 1\<rparr> in
      case rnd w (rpos w) of
        None \<Rightarrow> (Inl (Wrapped ''failed to generate nonce'' ErrRand), w1)
      | Some nonce \<Rightarrow> (Inr (nonce @ gcm_seal L (key e) nonce plaintext), w1))"

definition Decrypt :: "lib \<Rightarrow> Encryptor \<Rightarrow> bytes \<Rightarrow> error + bytes" where
  "Decrypt L e ciphertext =
     (if length ciphertext < nonceSize then Inl CiphertextTooShort
      else
        (case gcm_open L (key e) (take nonceSize ciphertext) (drop nonceSize ciphertext) of
           None \<Rightarrow> Inl (Wrapped ''decryption failed'' ErrBadData)
         | Some plaintext \<Rightarrow> Inr plaintext))"


section \<open>The differ (internal/diff)\<close>

record DiffResult =
  Added :: "FileDiff list"
  Modified :: "FileDiff list"
  Deleted :: "FileDiff list"
  Unchanged :: "FileDiff list"
  TotalAdded :: int
  TotalDeleted :: int
  TotalModified :: int

definition empty_diff :: "string \<Rightarrow> DiffType \<Rightarrow> FileDiff" where
  "empty_diff p k =
     \<lparr>DiffPath = p, DiffKind = k, OldHash = [], NewHash = [], OldSize = 0, NewSize = 0,
      OldChunks = [], NewChunksOf = []\<rparr>"

fun compare_new :: "(string \<times> FileNode) list \<Rightarrow> (string \<times> FileNode) list \<Rightarrow> DiffResult \<Rightarrow> DiffResult" where
  "compare_new old [] result = result"
| "compare_new old ((path, newNode) # rest) result =
     (if IsDir newNode then compare_new old rest result
      else
        (case map_of old path of
           None \<Rightarrow>
             compare_new old rest
               (result\<lparr>Added := Added result @
                          [(empty_diff path DiffAdded)\<lparr>NewHash := Hash newNode, NewSize := Size newNode,
                                                        NewChunksOf := Chunks newNode\<rparr>],
                        TotalAdded := TotalAdded result + Size newNode\<rparr>)
         | Some oldNode \<Rightarrow>
             if Hash newNode \<noteq> Hash oldNode
             then compare_new old rest
               (result\<lparr>Modified := Modified result @
                          [(empty_diff path DiffModified)\<lparr>OldHash := Hash oldNode, NewHash := Hash newNode,
                             OldSize := Size oldNode, NewSize := Size newNode,
                             OldChunks := Chunks oldNode, NewChunksOf := Chunks newNode\<rparr>],
                        TotalModified := TotalModified result + Size newNode\<rparr>)
             else compare_new old rest
               (result\<lparr>Unchanged := Unchanged result @
                          [(empty_diff path DiffUnchanged)\<lparr>OldHash := Hash oldNode,
                                                            NewHash := Hash newNode\<rparr>]\<rparr>)))"

fun compare_old :: "string list \<Rightarrow> (string \<times> FileNode) list \<Rightarrow> DiffResult \<Rightarrow> DiffResult" where
  "compare_old processed [] result = result"
| "compare_old processed ((path, oldNode) # rest) result =
     (if IsDir oldNode then compare_old processed rest result
      else if \<not> List.member processed path
      then compare_old processed rest
             (result\<lparr>Deleted := Deleted result @
                        [(empty_diff path DiffDeleted)\<lparr>OldHash := Hash oldNode, OldSize := Size oldNode,
                                                        OldChunks := Chunks oldNode\<rparr>],
                      TotalDeleted := TotalDeleted result + Size oldNode\<rparr>)
      else compare_old processed rest result)"

definition Compare :: "FileTree \<Rightarrow> FileTree \<Rightarrow> DiffResult" where
  "Compare oldTree newTree =
     (let result = \<lparr>Added = [], Modified = [], Deleted = [], Unchanged = [],
                    TotalAdded = 0, TotalDeleted = 0, TotalModified = 0\<rparr>;
          processed = map fst (filter (\<lambda>(p, n). \<not> IsDir n) (Files newTree))
      in compare_old processed (Files oldTree) (compare_new (Files oldTree) (Files newTree) result))"

definition AllChangedFiles :: "DiffResult \<Rightarrow> FileDiff list" where
  "AllChangedFiles r = Added r @ Modified r"

section \<open>The snapshot manager (internal/snapshot)\<close>

record Manager =
  repoPath :: string
  cas :: CAS
  compressor :: "Compressor option"
  encryptor :: "Encryptor option"
  chunker :: Chunker
  scanner :: Scanner

definition NewCAS :: "filesys \<Rightarrow> string \<Rightarrow> error + CAS" where
  "NewCAS fs base =
     (let objectsPath = Join [base, ''objects''] in
      case MkdirAll fs objectsPath of
        Some e \<Rightarrow> Inl (Wrapped ''failed to create CAS directory'' e)
      | None \<Rightarrow> Inr \<lparr>basePath = objectsPath, refCount = Map.empty\<rparr>)"

definition NewManager :: "filesys \<Rightarrow> string \<Rightarrow> Compressor option \<Rightarrow> Encryptor option \<Rightarrow> error + Manager" where
  "NewManager fs repoP cp en =
     (case NewCAS fs repoP of
        Inl e \<Rightarrow> Inl e
      | Inr c \<Rightarrow> Inr \<lparr>repoPath = repoP, cas = c, compressor = cp, encryptor = en,
                      chunker = chunker_NewDefault, scanner = scanner_New [] 4\<rparr>)"

definition SetExclusions :: "Manager \<Rightarrow> string list \<Rightarrow> Manager" where
  "SetExclusions m patterns = m\<lparr>scanner := scanner_New patterns 4\<rparr>"

definition snapshot_file :: "string \<Rightarrow> string" where
  "snapshot_file ident = ident @ ''.json''"

definition Manager_Get :: "Manager \<Rightarrow> world \<Rightarrow> string \<Rightarrow> error + Snapshot" where
  "Manager_Get m w ident =
     (let path = Join [repoPath m, ''snapshots'', snapshot_file ident] in
      case map_of (snapfiles w) (snapshot_file ident) of
        None \<Rightarrow> Inl (ErrNotExist path)
      | Some content \<Rightarrow>
          if faults (repo w) OpRead path then Inl (ErrIO path)
          else (case content of None \<Rightarrow> Inl ErrBadData | Some snap \<Rightarrow> Inr snap))"

definition Ext :: "string \<Rightarrow> string" where
  "Ext nm =
     (let tail = rev (takeWhile (\<lambda>c. c \<noteq> CHR ''.'' \<and> c \<noteq> CHR ''/'') (rev nm));
          n = length nm - length tail
      in if n > 0 \<and> nm ! (n - 1) = CHR ''.'' then drop (n - 1) nm else [])"

fun list_loop :: "Manager \<Rightarrow> world \<Rightarrow> string list \<Rightarrow> Snapshot list" where
  "list_loop m w [] = []"
| "list_loop m w (nm # rest) =
     (if Ext nm \<noteq> ''.json'' then list_loop m w rest
      else (case Manager_Get m w (take (length nm - 5) nm) of
              Inl e \<Rightarrow> list_loop m w rest
            | Inr snap \<Rightarrow> snap # list_loop m w rest))"

definition Manager_List :: "Manager \<Rightarrow> world \<Rightarrow> error + Snapshot list" where
  "Manager_List m w =
     (let snapshotsDir = Join [repoPath m, ''snapshots''] in
      if faults (repo w) OpRead snapshotsDir then Inl (ErrIO snapshotsDir)
      else Inr (sort_key (\<lambda>sn. - Timestamp sn) (list_loop m w (map fst (snapfiles w)))))"

definition Manager_Latest :: "Manager \<Rightarrow> world \<Rightarrow> error + Snapshot option" where
  "Manager_Latest m w =
     (case Manager_List m w of
        Inl e \<Rightarrow> Inl e
      | Inr snaps \<Rightarrow> (if length snaps = 0 then Inr None else Inr (Some (hd snaps))))"

definition saveSnapshot :: "Manager \<Rightarrow> world \<Rightarrow> Snapshot \<Rightarrow> error option \<times> world" where
  "saveSnapshot m w snap =
     (let snapshotsDir = Join [repoPath m, ''snapshots''] in
      case MkdirAll (repo w) snapshotsDir of
        Some e \<Rightarrow> (Some e, w)
      | None \<Rightarrow>
          let path = Join [snapshotsDir, snapshot_file (ID snap)] in
          if faults (repo w) OpWrite path then (Some (ErrIO path), w)
          else (None, w\<lparr>snapfiles := AList.update (snapshot_file (ID snap)) (Some snap) (snapfiles w)\<rparr>))"

record counters =
  newChunks :: int
  totalChunks :: int
  storedSize :: int

text \<open>The loop over the chunks of one file: compress, encrypt, store.\<close>

fun store_chunks ::
  "lib \<Rightarrow> Chunk list \<Rightarrow> string list \<Rightarrow> counters \<Rightarrow> Manager \<Rightarrow> world
     \<Rightarrow> (error + string list \<times> counters) \<times> Manager \<times> world" where
  "store_chunks L [] chunkHashes k m w = (Inr (chunkHashes, k), m, w)"
| "store_chunks L (chunk # rest) chunkHashes k m w =
     (case (case compressor m of
              None \<Rightarrow> Inr (ChunkData chunk)
            | Some cp \<Rightarrow> Compress L cp (ChunkData chunk)) of
        Inl e \<Rightarrow> (Inl (Wrapped ''compression failed'' e), m, w)
      | Inr data1 \<Rightarrow>
         (case (case encryptor m of
                  None \<Rightarrow> (Inr data1, w)
                | Some en \<Rightarrow> Encrypt L en data1 w) of
            (Inl e, w1) \<Rightarrow> (Inl (Wrapped ''encryption failed'' e), m, w1)
          | (Inr data2, w1) \<Rightarrow>
              if \<not> Has (cas m) (repo w1) (ChunkHash chunk)
              then
                (case Put L (cas m) (repo w1) data2 of
                   (Inl e, c', fs') \<Rightarrow>
                     (Inl (Wrapped ''storage failed'' e), m\<lparr>cas := c'\<rparr>, w1\<lparr>repo := fs'\<rparr>)
                 | (Inr h, c', fs') \<Rightarrow>
                     store_chunks L rest (chunkHashes @ [ChunkHash chunk])
                       (k\<lparr>newChunks := newChunks k + 1,
                          storedSize := storedSize k + int (length data2),
                          totalChunks := totalChunks k + 1\<rparr>)
                       (m\<lparr>cas := c'\<rparr>) (w1\<lparr>repo := fs'\<rparr>))
              else
                store_chunks L rest (chunkHashes @ [ChunkHash chunk])
                  (k\<lparr>totalChunks := totalChunks k + 1\<rparr>) m w1))"

text \<open>The loop over \<open>filesToProcess\<close>.\<close>

fun process_files ::
  "lib \<Rightarrow> (string \<times> FileNode option) list \<Rightarrow> FileTree \<Rightarrow> counters \<Rightarrow> Manager \<Rightarrow> world
     \<Rightarrow> (error + FileTree \<times> counters) \<times> Manager \<times> world" where
  "process_files L [] tree k m w = (Inr (tree, k), m, w)"
| "process_files L ((relPath, nodeptr) # rest) tree k m w =
     (case nodeptr of
        None \<Rightarrow> (Inl NilDereference, m, w)
      | Some node \<Rightarrow>
          if IsDir node then process_files L rest tree k m w
          else
            (case opens w (Path node) of
               Inl e \<Rightarrow> (Inl (Wrapped (''failed to open '' @ relPath) e), m, w)
             | Inr rd \<Rightarrow>
                (case Chunker_Chunk L (chunker m) rd of
                   Inl e \<Rightarrow> (Inl (Wrapped (''failed to chunk '' @ relPath) e), m, w)
                 | Inr cs \<Rightarrow>
                    (case store_chunks L cs [] k m w of
                       (Inl e, m1, w1) \<Rightarrow> (Inl e, m1, w1)
                     | (Inr (chunkHashes, k1), m1, w1) \<Rightarrow>
                         if map_of (Files tree) relPath = None then (Inl NilDereference, m1, w1)
                         else process_files L rest
                                (tree\<lparr>Files := set_node relPath (\<lambda>n. n\<lparr>Chunks := chunkHashes\<rparr>) (Files tree)\<rparr>)
                                k1 m1 w1))))"

text \<open>Copying the chunk lists of the unchanged files from the parent tree.\<close>

fun copy_unchanged :: "FileTree \<Rightarrow> FileDiff list \<Rightarrow> FileTree \<Rightarrow> error + FileTree" where
  "copy_unchanged parentTree [] tree = Inr tree"
| "copy_unchanged parentTree (d # ds) tree =
     (if map_of (Files tree) (DiffPath d) \<noteq> None
      then (case map_of (Files parentTree) (DiffPath d) of
              None \<Rightarrow> Inl NilDereference
            | Some pn \<Rightarrow>
                copy_unchanged parentTree ds
                  (tree\<lparr>Files := set_node (DiffPath d) (\<lambda>n. n\<lparr>Chunks := Chunks pn\<rparr>) (Files tree)\<rparr>))
      else copy_unchanged parentTree ds tree)"

text \<open>The parent tree, when a parent is named and its record can be loaded.\<close>

definition parent_tree :: "Manager \<Rightarrow> world \<Rightarrow> string \<Rightarrow> FileTree option" where
  "parent_tree m w parentID =
     (if parentID \<noteq> [] then
        (case Manager_Get m w parentID of
           Inr parent \<Rightarrow> Some (Tree parent)
         | Inl e \<Rightarrow> None)
      else None)"

definition diff_result :: "FileTree option \<Rightarrow> FileTree \<Rightarrow> DiffResult option" where
  "diff_result parentTree tree =
     (case parentTree of None \<Rightarrow> None | Some pt \<Rightarrow> Some (Compare pt tree))"

text \<open>
  The files to chunk, and the tree after the chunk lists of the unchanged files have been
  copied from the parent. Without a diff every entry of the tree is processed.
\<close>

definition files_to_process ::
  "FileTree option \<Rightarrow> FileTree \<Rightarrow> error + (string \<times> FileNode option) list \<times> FileTree" where
  "files_to_process parentTree tree =
     (case parentTree of
        None \<Rightarrow> Inr (map (\<lambda>(p, n). (p, Some n)) (Files tree), tree)
      | Some pt \<Rightarrow>
          let dr = Compare pt tree;
              todo = map (\<lambda>d. (DiffPath d, map_of (Files tree) (DiffPath d))) (AllChangedFiles dr)
          in (case copy_unchanged pt (Unchanged dr) tree of
                Inl e \<Rightarrow> Inl e
              | Inr tree1 \<Rightarrow> Inr (todo, tree1)))"

definition snapshot_stats ::
  "FileTree \<Rightarrow> counters \<Rightarrow> DiffResult option \<Rightarrow> int \<Rightarrow> SnapshotStats" where
  "snapshot_stats tree k diffResult duration =
     (let stats = \<lparr>StatsTotalSize = TotalSize tree, StoredSize = storedSize k,
                   ChunkCount = totalChunks k, NewChunks = newChunks k,
                   DeduplicatedSize = TotalSize tree - storedSize k,
                   Duration = duration,
                   FilesAdded = 0, FilesModified = 0, FilesDeleted = 0, FilesUnchanged = 0\<rparr>
      in case diffResult of
           Some dr \<Rightarrow>
             stats\<lparr>FilesAdded := int (length (Added dr)),
                   FilesModified := int (length (Modified dr)),
                   FilesDeleted := int (length (Deleted dr)),
                   FilesUnchanged := int (length (Unchanged dr))\<rparr>
         | None \<Rightarrow> stats\<lparr>FilesAdded := FileCount tree\<rparr>)"

text \<open>
  \<open>Manager.Create\<close> up to the point where the snapshot is complete in memory: everything
  before the call of \<open>saveSnapshot\<close>. The clock is read for the start time, for the
  identifier, for the time stamp and for the duration.
\<close>

definition Create_build ::
  "lib \<Rightarrow> Manager \<Rightarrow> world \<Rightarrow> string \<Rightarrow> string \<Rightarrow> string \<Rightarrow> (error + Snapshot) \<times> Manager \<times> world" where
  "Create_build L m w0 sourcePath description parentID =
     (case Now w0 of (startTime, w1) \<Rightarrow>
      (case ScanWithHashes L (scanner m) w1 sourcePath of
         Inl e \<Rightarrow> (Inl (Wrapped ''scan failed'' e), m, w1)
       | Inr tree \<Rightarrow>
          (case Now w1 of (idNano, w2) \<Rightarrow>
           (case Now w2 of (stamp, w3) \<Rightarrow>
            (case files_to_process (parent_tree m w1 parentID) tree of
               Inl e \<Rightarrow> (Inl e, m, w3)
             | Inr (filesToProcess, tree1) \<Rightarrow>
                (case process_files L filesToProcess tree1
                        \<lparr>newChunks = 0, totalChunks = 0, storedSize = 0\<rparr> m w3 of
                   (Inl e, m1, w4) \<Rightarrow> (Inl e, m1, w4)
                 | (Inr (tree2, k), m1, w4) \<Rightarrow>
                    (case Now w4 of (endTime, w5) \<Rightarrow>
                       (Inr \<lparr>ID = sprintf_d L idNano, Timestamp = stamp, Parent = parentID,
                             Description = description, Tree = tree2,
                             Stats = snapshot_stats tree2 k
                                       (diff_result (parent_tree m w1 parentID) tree)
                                       (endTime - startTime),
                             Encrypted = (encryptor m \<noteq> None),
                             Compressed = (compressor m \<noteq> None)\<rparr>, m1, w5))))))))"

definition Create ::
  "lib \<Rightarrow> Manager \<Rightarrow> world \<Rightarrow> string \<Rightarrow> string \<Rightarrow> string \<Rightarrow> (error + Snapshot) \<times> Manager \<times> world" where
  "Create L m w sourcePath description parentID =
     (case Create_build L m w sourcePath description parentID of
        (Inl e, m1, w1) \<Rightarrow> (Inl e, m1, w1)
      | (Inr snapshot, m1, w1) \<Rightarrow>
          (case saveSnapshot m1 w1 snapshot of
             (Some e, w2) \<Rightarrow> (Inl (Wrapped ''failed to save snapshot'' e), m1, w2)
           | (None, w2) \<Rightarrow> (Inr snapshot, m1, w2)))"

definition save_failure :: "error \<Rightarrow> bool" where
  "save_failure e = (case e of Wrapped msg e' \<Rightarrow> msg = ''failed to save snapshot'' | _ \<Rightarrow> False)"


text \<open>
  \<open>grows w w'\<close>: from \<open>w\<close> to \<open>w'\<close> the records under \<open>snapshots/\<close> and the faults of the
  repository are the same, no file of the repository has been removed and, when \<open>Stat\<close>
  cannot fail, every file of the repository has kept its bytes.
\<close>

definition grows :: "world \<Rightarrow> world \<Rightarrow> bool" where
  "grows w w' =
     (snapfiles w' = snapfiles w \<and> faults (repo w') = faults (repo w)
      \<and> dom (files (repo w)) \<subseteq> dom (files (repo w'))
      \<and> ((\<forall>p. \<not> faults (repo w) OpStat p) \<longrightarrow> files (repo w) \<subseteq>\<^sub>m files (repo w')))"

section \<open>Restore (internal/restore/restore.go)\<close>

record Restorer =
  rcas :: CAS
  rcompressor :: "Compressor option"
  rencryptor :: "Encryptor option"

definition NewRestorer :: "CAS \<Rightarrow> Compressor option \<Rightarrow> Encryptor option \<Rightarrow> Restorer" where
  "NewRestorer c cp en = \<lparr>rcas = c, rcompressor = cp, rencryptor = en\<rparr>"

record RestoreResult =
  FilesRestored :: int
  BytesRestored :: int
  Errors :: "(string \<times> error) list"

text \<open>The file system restored into, with the permission bits and modification times set on it.\<close>

record target =
  tfs :: filesys
  perms :: "string \<rightharpoonup> nat"
  mtimes :: "string \<rightharpoonup> int"

definition os_Create :: "target \<Rightarrow> string \<Rightarrow> error + target" where
  "os_Create t p =
     (if faults (tfs t) OpCreate p then Inl (ErrIO p)
      else Inr (t\<lparr>tfs := (tfs t)\<lparr>files := (files (tfs t))(p \<mapsto> [])\<rparr>\<rparr>))"

definition file_Write :: "target \<Rightarrow> string \<Rightarrow> bytes \<Rightarrow> error + target" where
  "file_Write t p data =
     (if faults (tfs t) OpWrite p then Inl (ErrIO p)
      else Inr (t\<lparr>tfs := (tfs t)\<lparr>files := (files (tfs t))
                   (p \<mapsto> (case files (tfs t) p of None \<Rightarrow> data | Some old \<Rightarrow> old @ data))\<rparr>\<rparr>))"

text \<open>The loop over the chunk digests of one file: get, decrypt, decompress, write.\<close>

fun restore_chunks ::
  "lib \<Rightarrow> Restorer \<Rightarrow> filesys \<Rightarrow> string list \<Rightarrow> string \<Rightarrow> target \<Rightarrow> error option \<times> target" where
  "restore_chunks L r fs [] targetPath t = (None, t)"
| "restore_chunks L r fs (chunkHash # rest) targetPath t =
     (case Get L (rcas r) fs chunkHash of
        Inl e \<Rightarrow> (Some (Wrapped (''failed to get chunk '' @ chunkHash) e), t)
      | Inr data \<Rightarrow>
         (case (case rencryptor r of None \<Rightarrow> Inr data | Some en \<Rightarrow> Decrypt L en data) of
            Inl e \<Rightarrow> (Some (Wrapped ''decryption failed'' e), t)
          | Inr data1 \<Rightarrow>
             (case (case rcompressor r of None \<Rightarrow> Inr data1 | Some cp \<Rightarrow> Decompress L cp data1) of
                Inl e \<Rightarrow> (Some (Wrapped ''decompression failed'' e), t)
              | Inr data2 \<Rightarrow>
                 (case file_Write t targetPath data2 of
                    Inl e \<Rightarrow> (Some (Wrapped ''failed to write chunk'' e), t)
                  | Inr t1 \<Rightarrow> restore_chunks L r fs rest targetPath t1))))"

definition restoreFile ::
  "lib \<Rightarrow> Restorer \<Rightarrow> filesys \<Rightarrow> FileNode \<Rightarrow> string \<Rightarrow> RestoreOptions \<Rightarrow> target
     \<Rightarrow> error option \<times> target" where
  "restoreFile L r fs node targetPath opts t =
     (if DryRun opts then (None, t)
      else
        (case MkdirAll (tfs t) (Dir targetPath) of
           Some e \<Rightarrow> (Some (Wrapped ''failed to create directories'' e), t)
         | None \<Rightarrow>
            (case os_Create t targetPath of
               Inl e \<Rightarrow> (Some (Wrapped ''failed to create file'' e), t)
             | Inr t1 \<Rightarrow>
                (case restore_chunks L r fs (Chunks node) targetPath t1 of
                   (Some e, t2) \<Rightarrow> (Some e, t2)
                 | (None, t2) \<Rightarrow>
                     let t3 = (if PreservePerms opts \<and> \<not> faults (tfs t2) OpChmod targetPath
                               then t2\<lparr>perms := (perms t2)(targetPath \<mapsto> Mode node)\<rparr> else t2);
                         t4 = (if \<not> faults (tfs t3) OpChtimes targetPath
                               then t3\<lparr>mtimes := (mtimes t3)(targetPath \<mapsto> ModTime node)\<rparr> else t3)
                     in (None, t4)))))"

fun restore_loop ::
  "lib \<Rightarrow> Restorer \<Rightarrow> filesys \<Rightarrow> RestoreOptions \<Rightarrow> (string \<times> FileNode) list \<Rightarrow> RestoreResult
     \<Rightarrow> target \<Rightarrow> RestoreResult \<times> target" where
  "restore_loop L r fs opts [] result t = (result, t)"
| "restore_loop L r fs opts ((relPath, node) # rest) result t =
     (if IsDir node then restore_loop L r fs opts rest result t
      else if \<not> shouldRestore L relPath (IncludePattern opts) (ExcludePattern opts)
      then restore_loop L r fs opts rest result t
      else
        let targetPath = Join [TargetPath opts, relPath] in
        if \<not> Overwrite opts \<and> Stat (tfs t) targetPath = None
        then restore_loop L r fs opts rest result t
        else
          (case restoreFile L r fs node targetPath opts t of
             (Some e, t1) \<Rightarrow>
               restore_loop L r fs opts rest (result\<lparr>Errors := Errors result @ [(relPath, e)]\<rparr>) t1
           | (None, t1) \<Rightarrow>
               restore_loop L r fs opts rest
                 (result\<lparr>FilesRestored := FilesRestored result + 1,
                         BytesRestored := BytesRestored result + Size node\<rparr>) t1))"

definition Restore ::
  "lib \<Rightarrow> Restorer \<Rightarrow> filesys \<Rightarrow> Snapshot \<Rightarrow> RestoreOptions \<Rightarrow> target
     \<Rightarrow> (error + RestoreResult) \<times> target" where
  "Restore L r fs snapshot opts t =
     (case MkdirAll (tfs t) (TargetPath opts) of
        Some e \<Rightarrow> (Inl (Wrapped ''failed to create target directory'' e), t)
      | None \<Rightarrow>
          (case restore_loop L r fs opts (Files (Tree snapshot))
                  \<lparr>FilesRestored = 0, BytesRestored = 0, Errors = []\<rparr> t of
             (result, t1) \<Rightarrow> (Inr result, t1)))"


section \<open>A small instance for evaluating the model\<close>

text \<open>
  An instance of the library parameters on which the model can be run: the digest is the
  hexadecimal rendering of the bytes themselves (injective, in place of SHA-256), the
  compressor puts a marker byte in front, the cipher shifts every byte, the matcher is
  \<open>glob\<close>. The theorems below do not depend on it; it supplies their examples.
\<close>

definition hex_digit :: "nat \<Rightarrow> char" where
  "hex_digit n = ''0123456789abcdef'' ! n"

definition hex_encode :: "bytes \<Rightarrow> string" where
  "hex_encode d = concat (map (\<lambda>b. [hex_digit (unat b div 16), hex_digit (unat b mod 16)]) d)"

fun dec_digits :: "nat \<Rightarrow> string" where
  "dec_digits n = (if n < 10 then [hex_digit n] else dec_digits (n div 10) @ [hex_digit (n mod 10)])"

definition show_dec :: "int \<Rightarrow> string" where
  "show_dec i = (if i < 0 then CHR ''-'' # dec_digits (nat (- i)) else dec_digits (nat i))"

definition ex_lib :: lib where
  "ex_lib =
     \<lparr>sha256hex = hex_encode,
      rk_sum64 = (\<lambda>h. of_nat (length h)),
      zstd_encode = (\<lambda>lvl d. 0x28 # d),
      zstd_decode = (\<lambda>d. case d of [] \<Rightarrow> None | b # r \<Rightarrow> if b = 0x28 then Some r else None),
      gcm_seal = (\<lambda>k n p. map (\<lambda>b. b + 1) p),
      gcm_open = (\<lambda>k n c. Some (map (\<lambda>b. b - 1) c)),
      fp_match = glob,
      sprintf_d = show_dec\<rparr>"

definition ex_cas :: CAS where
  "ex_cas = \<lparr>basePath = ''/r/objects'', refCount = Map.empty\<rparr>"

definition ex_fs :: filesys where
  "ex_fs = \<lparr>files = Map.empty, faults = (\<lambda>op p. False)\<rparr>"

text \<open>A store that holds the object of the bytes 1, 2, 255, and one where that object is damaged.\<close>

definition ex_fs_stored :: filesys where
  "ex_fs_stored = \<lparr>files = [''/r/objects/01/0102ff'' \<mapsto> [1, 2, 255]], faults = (\<lambda>op p. False)\<rparr>"

definition ex_fs_damaged :: filesys where
  "ex_fs_damaged = \<lparr>files = [''/r/objects/01/0102ff'' \<mapsto> [1, 2, 254]], faults = (\<lambda>op p. False)\<rparr>"

text \<open>Two readers that deliver the bytes 1 to 5 in different pieces.\<close>

definition ex_reader :: reader where
  "ex_reader = [([1, 2, 3], None), ([4, 5], Some EOF)]"

definition ex_reader' :: reader where
  "ex_reader' = [([1], None), ([], None), ([2, 3, 4, 5], None)]"

text \<open>A scanner with two exclusions and a source directory \<open>/d\<close> to scan.\<close>

definition ex_scanner :: Scanner where
  "ex_scanner = scanner_New [''node_modules'', ''*.tmp''] 4"

definition ex_file :: "string \<Rightarrow> int \<Rightarrow> srctree" where
  "ex_file nm sz =
     SrcNode \<lparr>fiName = nm, fiIsDir = False, fiMode = 420, fiSize = sz, fiModTime = 7\<rparr> None []"

definition ex_dir_info :: "string \<Rightarrow> FileInfo" where
  "ex_dir_info nm = \<lparr>fiName = nm, fiIsDir = True, fiMode = 493, fiSize = 0, fiModTime = 7\<rparr>"

definition ex_source :: srctree where
  "ex_source =
     SrcNode (ex_dir_info ''d'') None
       [ex_file ''a.tmp'' 3, ex_file ''b.txt'' 5,
        SrcNode (ex_dir_info ''node_modules'') None [ex_file ''x.js'' 9]]"

definition ex_tree0 :: FileTree where
  "ex_tree0 =
     \<lparr>Root = \<lparr>Path = ''/d'', Name = ''d'', IsDir = True, Mode = 493, Size = 0, ModTime = 7,
              Hash = [], Chunks = []\<rparr>,
      Files = [], TotalSize = 0, FileCount = 0, DirCount = 0\<rparr>"

text \<open>
  A repository \<open>/r\<close> and a source directory \<open>/d\<close> with the files \<open>a.txt\<close> (bytes 1, 2, 3)
  and \<open>b.txt\<close> (bytes 4, 5, 6); the chunker parameters make each file one chunk.
  \<open>ex_manager_zstd\<close> has compression enabled.
\<close>

definition ex_tree_ab :: srctree where
  "ex_tree_ab = SrcNode (ex_dir_info ''d'') None [ex_file ''a.txt'' 3, ex_file ''b.txt'' 3]"

definition ex_manager :: Manager where
  "ex_manager =
     \<lparr>repoPath = ''/r'', cas = ex_cas, compressor = None, encryptor = None,
      chunker = chunker_New 8 8 8, scanner = scanner_New [] 4\<rparr>"

definition ex_world :: world where
  "ex_world =
     \<lparr>repo = ex_fs, snapfiles = [],
      srcAt = (\<lambda>p. if p = ''/d'' then ex_tree_ab else SrcErr p (ErrNotExist p)),
      opens = (\<lambda>p. if p = ''/d/a.txt'' then Inr [([1, 2, 3], Some EOF)]
                    else if p = ''/d/b.txt'' then Inr [([4, 5, 6], None), ([], Some EOF)]
                    else Inl (ErrNotExist p)),
      rnd = (\<lambda>n. None), rpos = 0, clock = (\<lambda>n. 1000 + int n), ticks = 0\<rparr>"

definition ex_zstd :: Compressor where
  "ex_zstd = \<lparr>algorithm = ''zstd'', level = 3\<rparr>"

definition ex_manager_zstd :: Manager where
  "ex_manager_zstd = ex_manager\<lparr>compressor := Some ex_zstd\<rparr>"

definition ex_manager_gcm :: Manager where
  "ex_manager_gcm = ex_manager\<lparr>encryptor := Some \<lparr>key = [7], salt = [9]\<rparr>\<rparr>"

definition ex_world_nonces :: world where
  "ex_world_nonces = ex_world\<lparr>rnd := (\<lambda>n. Some (replicate 12 (of_nat n)))\<rparr>"


text \<open>
  A backup that fails while it stores: chunks of two bytes, \<open>a.txt\<close> with the bytes 1, 2, 3
  and \<open>b.txt\<close> with the bytes 4, 5, 6, 7, and a store in which the object of the bytes 6, 7
  cannot be written. \<open>ex_after_a\<close> is the state of the loop over the files after the root
  and \<open>a.txt\<close>, \<open>ex_after_b1\<close> the state of the loop over the chunks of \<open>b.txt\<close> after
  its first chunk.
\<close>

definition ex_tree_big :: srctree where
  "ex_tree_big = SrcNode (ex_dir_info ''d'') None [ex_file ''a.txt'' 3, ex_file ''b.txt'' 4]"

definition ex_manager_small :: Manager where
  "ex_manager_small = ex_manager\<lparr>chunker := chunker_New 2 2 2\<rparr>"

definition ex_world_fault :: world where
  "ex_world_fault =
     ex_world\<lparr>repo := ex_fs\<lparr>faults := (\<lambda>op p. op = OpWrite \<and> p = ''/r/objects/06/0607'')\<rparr>,
              srcAt := (\<lambda>p. ex_tree_big),
              opens := (\<lambda>p. if p = ''/d/a.txt'' then Inr [([1, 2, 3], Some EOF)]
                             else if p = ''/d/b.txt'' then Inr [([4, 5, 6, 7], Some EOF)]
                             else Inl (ErrNotExist p))\<rparr>"

definition ex_failed :: "(error + Snapshot) \<times> Manager \<times> world" where
  "ex_failed = Create ex_lib ex_manager_small ex_world_fault ''/d'' ''first'' []"

definition ex_scanned :: FileTree where
  "ex_scanned = projr (ScanWithHashes ex_lib (scanner ex_manager_small) (snd (Now ex_world_fault)) ''/d'')"

definition ex_todo :: "(string \<times> FileNode option) list" where
  "ex_todo = map (\<lambda>(p, n). (p, Some n)) (Files ex_scanned)"

definition ex_after_a :: "(error + FileTree \<times> counters) \<times> Manager \<times> world" where
  "ex_after_a =
     process_files ex_lib (take 2 ex_todo) ex_scanned
       \<lparr>newChunks = 0, totalChunks = 0, storedSize = 0\<rparr> ex_manager_small
       (snd (Now (snd (Now (snd (Now ex_world_fault))))))"

definition ex_node_b :: FileNode where
  "ex_node_b =
     \<lparr>Path = ''/d/b.txt'', Name = ''b.txt'', IsDir = False, Mode = 420, Size = 4, ModTime = 7,
      Hash = ''04050607'', Chunks = []\<rparr>"

definition ex_after_b1 :: "(error + string list \<times> counters) \<times> Manager \<times> world" where
  "ex_after_b1 =
     store_chunks ex_lib [createChunk ex_lib [4, 5] 0] [] (snd (projr (fst ex_after_a)))
       (fst (snd ex_after_a)) (snd (snd ex_after_a))"

definition ex_opts :: RestoreOptions where
  "ex_opts =
     \<lparr>SnapshotID = [], TargetPath = ''/t'', IncludePattern = [], ExcludePattern = [],
      Overwrite = True, PreservePerms = True, DryRun = False\<rparr>"

definition ex_target :: target where
  "ex_target = \<lparr>tfs = ex_fs, perms = Map.empty, mtimes = Map.empty\<rparr>"

section \<open>Properties of the store\<close>

lemma objectPath_refCount [simp]: "objectPath (c\<lparr>refCount := r\<rparr>) h = objectPath c h"
  by (simp add: objectPath_def)

lemma count_of_upd [simp]: "count_of (c\<lparr>refCount := (r)(h \<mapsto> n)\<rparr>) h = n"
  by (simp add: count_of_def)

lemma Has_iff: "fault_free fs \<Longrightarrow> Has c fs h = (files fs (objectPath c h) \<noteq> None)"
  by (auto simp: Has_def Stat_def fault_free_def split: option.splits)

lemma Put_fresh:
  assumes "fault_free fs" "files fs (objectPath c (sha256hex L X)) = None"
  shows "Put L c fs X =
           (Inr (sha256hex L X), c\<lparr>refCount := (refCount c)(sha256hex L X \<mapsto> 1)\<rparr>,
            fs\<lparr>files := (files fs)(objectPath c (sha256hex L X) \<mapsto> X)\<rparr>)"
  using assms
  by (simp add: Put_def Let_def Has_def Stat_def MkdirAll_def WriteFile_def fault_free_def)

lemma put_times_present:
  assumes "fault_free fs" "files fs (objectPath c (sha256hex L X)) \<noteq> None"
  shows "put_times n L X (c, fs) =
     (replicate n (Inr (sha256hex L X)),
      (if n = 0 then c
       else c\<lparr>refCount := (refCount c)(sha256hex L X \<mapsto> count_of c (sha256hex L X) + int n)\<rparr>),
      fs)"
  using assms
proof (induction n arbitrary: c)
  case 0
  then show ?case by simp
next
  case (Suc n)
  let ?h = "sha256hex L X"
  let ?c' = "c\<lparr>refCount := (refCount c)(?h \<mapsto> count_of c ?h + 1)\<rparr>"
  have P: "Put L c fs X = (Inr ?h, ?c', fs)"
    using Suc.prems by (simp add: Put_def Let_def Has_iff)
  have "files fs (objectPath ?c' ?h) \<noteq> None" using Suc.prems by simp
  from Suc.IH[OF Suc.prems(1) this] P show ?case
    by (cases n) (simp_all add: algebra_simps)
qed

lemma delete_times_count:
  assumes "fault_free fs" "files fs (objectPath c h) \<noteq> None" "refCount c h = Some (int n)" "0 < n"
  shows "delete_times n h (c, fs) =
     (replicate n None, c\<lparr>refCount := (refCount c)(h := None)\<rparr>,
      fs\<lparr>files := (files fs)(objectPath c h := None)\<rparr>)"
  using assms
proof (induction n arbitrary: c)
  case 0
  then show ?case by simp
next
  case (Suc n)
  show ?case
  proof (cases "n = 0")
    case True
    with Suc.prems show ?thesis
      by (cases "files fs (objectPath c h)")
         (simp_all add: Delete_def Remove_def fault_free_def fun_upd_def)
  next
    case False
    let ?c' = "c\<lparr>refCount := (refCount c)(h \<mapsto> int n)\<rparr>"
    have D: "Delete c fs h = (None, ?c', fs)"
      using Suc.prems False by (simp add: Delete_def)
    have "delete_times n h (?c', fs) =
        (replicate n None, ?c'\<lparr>refCount := (refCount ?c')(h := None)\<rparr>,
         fs\<lparr>files := (files fs)(objectPath ?c' h := None)\<rparr>)"
      using Suc.prems False by (intro Suc.IH) simp_all
    with D show ?thesis by (simp add: fun_upd_def cong: if_cong)
  qed
qed

lemma put_times_fresh:
  assumes "fault_free fs" "refCount c (sha256hex L X) = None" "0 < n"
  shows "put_times n L X (c, fs) =
     (replicate n (Inr (sha256hex L X)),
      c\<lparr>refCount := (refCount c)(sha256hex L X \<mapsto> int n)\<rparr>,
      snd (snd (Put L c fs X)))"
proof -
  let ?h = "sha256hex L X"
  obtain k where n: "n = Suc k" using assms(3) by (cases n) auto
  show ?thesis
  proof (cases "files fs (objectPath c ?h)")
    case None
    have P: "Put L c fs X = (Inr ?h, c\<lparr>refCount := (refCount c)(?h \<mapsto> 1)\<rparr>,
        fs\<lparr>files := (files fs)(objectPath c ?h \<mapsto> X)\<rparr>)"
      using Put_fresh[OF assms(1) None] .
    have F: "fault_free (fs\<lparr>files := (files fs)(objectPath c ?h \<mapsto> X)\<rparr>)"
      using assms(1) by (simp add: fault_free_def)
    show ?thesis unfolding n
      using P put_times_present[OF F, of "c\<lparr>refCount := (refCount c)(?h \<mapsto> 1)\<rparr>" L X k]
      by (cases k) (simp_all add: algebra_simps)
  next
    case (Some d)
    have P: "Put L c fs X = (Inr ?h, c\<lparr>refCount := (refCount c)(?h \<mapsto> count_of c ?h + 1)\<rparr>, fs)"
      using Some assms(1) by (simp add: Put_def Let_def Has_iff)
    have C0: "count_of c ?h = 0" using assms(2) by (simp add: count_of_def)
    show ?thesis unfolding n
      using P C0 Some
        put_times_present[OF assms(1), of "c\<lparr>refCount := (refCount c)(?h \<mapsto> 1)\<rparr>" L X k]
      by (cases k) (simp_all add: algebra_simps)
  qed
qed

text \<open>
  C5. On a file system without faults and a store that holds no reference count for the
  digest of \<open>X\<close>: \<open>Put X\<close> twice returns the digest of \<open>X\<close> both times, and the second
  call leaves the disk as the first one left it, with the one object file of that digest
  added to what was there; \<open>n\<close> calls of \<open>Put X\<close> followed by \<open>n\<close> calls of \<open>Delete\<close> all
  succeed and leave no object file for the digest; one more \<open>Delete\<close> fails with the
  error of a file that does not exist.
\<close>

theorem CAS_idempotence:
  assumes "fault_free fs" and "refCount c (sha256hex L X) = None" and "0 < n"
  shows "let h = sha256hex L X; p = objectPath c h;
             (r1, c1, fs1) = Put L c fs X;
             (r2, c2, fs2) = Put L c1 fs1 X;
             (rs, cn, fsn) = put_times n L X (c, fs);
             (ds, cd, fsd) = delete_times n h (cn, fsn);
             (e, ce, fse) = Delete cd fsd h
         in r1 = Inr h \<and> r2 = Inr h \<and> fs2 = fs1 \<and> files fs1 p \<noteq> None
            \<and> (\<forall>q. q \<noteq> p \<longrightarrow> files fs1 q = files fs q)
            \<and> rs = replicate n (Inr h) \<and> fsn = fs1
            \<and> ds = replicate n None \<and> files fsd p = None
            \<and> e = Some (ErrNotExist p) \<and> IsNotExist (ErrNotExist p) \<and> fse = fsd"
proof -
  let ?h = "sha256hex L X"
  let ?p = "objectPath c ?h"
  obtain r1 c1 fs1 where P1: "Put L c fs X = (r1, c1, fs1)" by (cases "Put L c fs X") auto
  have r1: "r1 = Inr ?h" and fs1p: "files fs1 ?p \<noteq> None"
    and fs1q: "\<forall>q. q \<noteq> ?p \<longrightarrow> files fs1 q = files fs q" and ff1: "fault_free fs1"
    and c1p: "objectPath c1 ?h = ?p"
    using P1 assms(1) Put_fresh[OF assms(1), of c L X]
    by (cases "files fs ?p"; auto simp: Put_def Let_def Has_iff fault_free_def)+
  have P2: "Put L c1 fs1 X = (Inr ?h, c1\<lparr>refCount := (refCount c1)(?h \<mapsto> count_of c1 ?h + 1)\<rparr>, fs1)"
    using ff1 fs1p c1p by (simp add: Put_def Let_def Has_iff)
  have PN: "put_times n L X (c, fs) =
     (replicate n (Inr ?h), c\<lparr>refCount := (refCount c)(?h \<mapsto> int n)\<rparr>, fs1)"
    using put_times_fresh[OF assms] P1 by simp
  let ?cn = "c\<lparr>refCount := (refCount c)(?h \<mapsto> int n)\<rparr>"
  have DN: "delete_times n ?h (?cn, fs1) =
     (replicate n None, ?cn\<lparr>refCount := (refCount ?cn)(?h := None)\<rparr>,
      fs1\<lparr>files := (files fs1)(objectPath ?cn ?h := None)\<rparr>)"
    using ff1 fs1p assms(3) by (intro delete_times_count) simp_all
  let ?cd = "?cn\<lparr>refCount := (refCount ?cn)(?h := None)\<rparr>"
  let ?fsd = "fs1\<lparr>files := (files fs1)(?p := None)\<rparr>"
  have DE: "Delete ?cd ?fsd ?h = (Some (ErrNotExist ?p), ?cd, ?fsd)"
    by (simp add: Delete_def Remove_def)
  show ?thesis
    using P1 r1 fs1p fs1q P2 PN DN DE by (simp add: Let_def IsNotExist_def)
qed

theorem CAS_idempotence_witness:
  "fault_free ex_fs \<and> refCount ex_cas (sha256hex ex_lib [1, 2, 255]) = None \<and> (0::nat) < 2
   \<and> (let h = sha256hex ex_lib [1, 2, 255]; p = objectPath ex_cas h;
           (r1, c1, fs1) = Put ex_lib ex_cas ex_fs [1, 2, 255];
           (r2, c2, fs2) = Put ex_lib c1 fs1 [1, 2, 255];
           (rs, cn, fsn) = put_times 2 ex_lib [1, 2, 255] (ex_cas, ex_fs);
           (ds, cd, fsd) = delete_times 2 h (cn, fsn);
           (e, ce, fse) = Delete cd fsd h
       in r1 = Inr h \<and> r2 = Inr h \<and> fs2 = fs1 \<and> files fs1 p \<noteq> None
          \<and> (\<forall>q. q \<noteq> p \<longrightarrow> files fs1 q = files ex_fs q)
          \<and> rs = replicate 2 (Inr h) \<and> fsn = fs1
          \<and> ds = replicate 2 None \<and> files fsd p = None
          \<and> e = Some (ErrNotExist p) \<and> IsNotExist (ErrNotExist p) \<and> fse = fsd)"
proof -
  have a: "fault_free ex_fs" by (simp add: fault_free_def ex_fs_def)
  have b: "refCount ex_cas (sha256hex ex_lib [1, 2, 255]) = None" by (simp add: ex_cas_def)
  have c: "(0::nat) < 2" by simp
  from CAS_idempotence[OF a b c] a b c show ?thesis by blast
qed

text \<open>
  C6. \<open>Get\<close> returns bytes only if they are the bytes read from the object file of the digest
  and their digest is the requested one; it fails with the not-found error when no object
  file exists, and with the corruption error when the bytes read have another digest.
\<close>

theorem Get_contract:
  "(Get L c fs hash = Inr d \<longrightarrow>
      ReadFile fs (objectPath c hash) = Inr d \<and> sha256hex L d = hash)
   \<and> (files fs (objectPath c hash) = None \<longrightarrow> Get L c fs hash = Inl (ObjectNotFound hash))
   \<and> (ReadFile fs (objectPath c hash) = Inr d \<and> sha256hex L d \<noteq> hash \<longrightarrow>
        Get L c fs hash = Inl (ObjectCorruption hash))"
  by (auto simp: Get_def ReadFile_def IsNotExist_def split: option.splits sum.splits if_splits)

theorem Get_contract_witness:
  "(Get ex_lib ex_cas ex_fs_stored ''0102ff'' = Inr [1, 2, 255]
      \<and> ReadFile ex_fs_stored (objectPath ex_cas ''0102ff'') = Inr [1, 2, 255]
      \<and> sha256hex ex_lib [1, 2, 255] = ''0102ff'')
   \<and> (files ex_fs (objectPath ex_cas ''0102ff'') = None
      \<and> Get ex_lib ex_cas ex_fs ''0102ff'' = Inl (ObjectNotFound ''0102ff''))
   \<and> (ReadFile ex_fs_damaged (objectPath ex_cas ''0102ff'') = Inr [1, 2, 254]
      \<and> sha256hex ex_lib [1, 2, 254] \<noteq> ''0102ff''
      \<and> Get ex_lib ex_cas ex_fs_damaged ''0102ff'' = Inl (ObjectCorruption ''0102ff''))"
proof -
  have g: "Get ex_lib ex_cas ex_fs_stored ''0102ff'' = Inr [1, 2, 255]" by code_simp
  have n: "files ex_fs (objectPath ex_cas ''0102ff'') = None" by (simp add: ex_fs_def)
  have r: "ReadFile ex_fs_damaged (objectPath ex_cas ''0102ff'') = Inr [1, 2, 254]" by code_simp
  have h: "sha256hex ex_lib [1, 2, 254] \<noteq> ''0102ff''" by code_simp
  from Get_contract[of ex_lib ex_cas ex_fs_stored "''0102ff''" "[1, 2, 255]"]
       Get_contract[of ex_lib ex_cas ex_fs "''0102ff''" "[]"]
       Get_contract[of ex_lib ex_cas ex_fs_damaged "''0102ff''" "[1, 2, 254]"]
       g n r h
  show ?thesis by blast
qed

text \<open>
  C10. When the store has the object file of the digest of \<open>X\<close>, \<open>Put X\<close> returns the
  digest and leaves the file system exactly as it was; the only change is the reference
  count of that digest, which is one more than before (counting from zero when the
  digest had no entry).
\<close>

theorem Put_existing_frame:
  assumes "Has c fs (sha256hex L X)"
  shows "Put L c fs X =
           (Inr (sha256hex L X),
            c\<lparr>refCount := (refCount c)(sha256hex L X \<mapsto> count_of c (sha256hex L X) + 1)\<rparr>,
            fs)"
  using assms by (simp add: Put_def Let_def)

theorem Put_existing_frame_witness:
  "Has ex_cas ex_fs_stored (sha256hex ex_lib [1, 2, 255])
   \<and> Put ex_lib ex_cas ex_fs_stored [1, 2, 255] =
       (Inr (sha256hex ex_lib [1, 2, 255]),
        ex_cas\<lparr>refCount := (refCount ex_cas)(sha256hex ex_lib [1, 2, 255] \<mapsto>
                    count_of ex_cas (sha256hex ex_lib [1, 2, 255]) + 1)\<rparr>,
        ex_fs_stored)"
proof -
  have h: "Has ex_cas ex_fs_stored (sha256hex ex_lib [1, 2, 255])" by code_simp
  from Put_existing_frame[OF h] h show ?thesis by blast
qed


section \<open>Properties of the chunker\<close>

lemma chunk_loop_delivered:
  "chunk_loop L c rd s =
     (case delivered rd of Inl e \<Rightarrow> Inl e | Inr X \<Rightarrow> Inr (foldl (chunk_byte L c) s X))"
proof (induction rd arbitrary: s)
  case Nil
  then show ?case by simp
next
  case (Cons r rd)
  obtain d err where r: "r = (d, err)" by (cases r)
  show ?case unfolding r
    by (cases err; cases "d = []")
       (auto simp: Cons.IH Let_def split: sum.splits rerr.splits option.splits)
qed

lemma chunk_inv_step:
  assumes "chunk_inv c s X" "0 < minSize c" "minSize c \<le> maxSize c"
  shows "chunk_inv c (chunk_byte L c s b) (X @ [b])"
  using assms
  by (auto simp: chunk_inv_def chunk_byte_def Let_def createChunk_def)

lemma chunk_inv_foldl:
  assumes "chunk_inv c s X" "0 < minSize c" "minSize c \<le> maxSize c"
  shows "chunk_inv c (foldl (chunk_byte L c) s Y) (X @ Y)"
  using assms(1)
proof (induction Y arbitrary: s X)
  case Nil
  then show ?case by simp
next
  case (Cons b Y)
  from chunk_inv_step[OF Cons.prems assms(2,3), of L b]
  have "chunk_inv c (chunk_byte L c s b) (X @ [b])" .
  from Cons.IH[OF this] show ?case by simp
qed

lemma chunk_inv_init: "0 < maxSize c \<Longrightarrow> chunk_inv c chunk_init []"
  by (simp add: chunk_inv_def chunk_init_def)

lemma chunk_finish_props:
  assumes "chunk_inv c s X" "0 < minSize c" "minSize c \<le> maxSize c"
  shows "concat (map ChunkData (chunk_finish L s)) = X
       \<and> (\<forall>ch \<in> set (chunk_finish L s).
             1 \<le> length (ChunkData ch) \<and> int (length (ChunkData ch)) \<le> maxSize c
             \<and> ChunkSize ch = int (length (ChunkData ch)))
       \<and> (\<forall>ch \<in> set (butlast (chunk_finish L s)). minSize c \<le> int (length (ChunkData ch)))"
proof (cases "currentChunk s = []")
  case True
  with assms show ?thesis
    by (auto simp: chunk_inv_def chunk_finish_def dest: in_set_butlastD)
next
  case False
  with assms show ?thesis
    by (auto simp: chunk_inv_def chunk_finish_def createChunk_def butlast_append Suc_le_eq)
qed

lemma chunker_New_fields:
  assumes "0 < mn" "0 < av" "0 < mx"
  shows "minSize (chunker_New mn av mx) = mn" "avgSize (chunker_New mn av mx) = av"
        "maxSize (chunker_New mn av mx) = mx"
  using assms by (simp_all add: chunker_New_def Let_def)

text \<open>
  C4. For parameters with \<open>0 < min \<le> avg \<le> max\<close> and a reader that delivers the bytes
  \<open>X\<close>, \<open>Chunk\<close> returns chunks whose data, concatenated in order, is \<open>X\<close>; every chunk has
  at least one byte and at most \<open>max\<close>, its \<open>Size\<close> is the length of its data, and every
  chunk but the last has at least \<open>min\<close> bytes.
\<close>

theorem Chunk_coverage:
  assumes "0 < mn" "mn \<le> av" "av \<le> mx" and "delivered rd = Inr X"
  shows "\<exists>cs. Chunker_Chunk L (chunker_New mn av mx) rd = Inr cs
      \<and> concat (map ChunkData cs) = X
      \<and> (\<forall>ch \<in> set cs. 1 \<le> length (ChunkData ch) \<and> int (length (ChunkData ch)) \<le> mx
                       \<and> ChunkSize ch = int (length (ChunkData ch)))
      \<and> (\<forall>ch \<in> set (butlast cs). mn \<le> int (length (ChunkData ch)))"
proof -
  let ?c = "chunker_New mn av mx"
  have f: "minSize ?c = mn" "maxSize ?c = mx"
    using assms(1-3) by (simp_all add: chunker_New_fields)
  let ?s = "foldl (chunk_byte L ?c) chunk_init X"
  have run: "Chunker_Chunk L ?c rd = Inr (chunk_finish L ?s)"
    using assms(4) by (simp add: Chunker_Chunk_def chunk_loop_delivered)
  have "chunk_inv ?c chunk_init []" using assms(1-3) f by (intro chunk_inv_init) simp
  from chunk_inv_foldl[OF this, of L X] f assms(1-3)
  have "chunk_inv ?c ?s X" by simp
  from chunk_finish_props[OF this, of L] f assms(1-3) run show ?thesis by auto
qed

theorem Chunk_coverage_witness:
  "(0::int) < 2 \<and> (2::int) \<le> 4 \<and> (4::int) \<le> 4 \<and> delivered ex_reader = Inr [1, 2, 3, 4, 5]
   \<and> (\<exists>cs. Chunker_Chunk ex_lib (chunker_New 2 4 4) ex_reader = Inr cs
      \<and> concat (map ChunkData cs) = [1, 2, 3, 4, 5]
      \<and> (\<forall>ch \<in> set cs. 1 \<le> length (ChunkData ch) \<and> int (length (ChunkData ch)) \<le> 4
                       \<and> ChunkSize ch = int (length (ChunkData ch)))
      \<and> (\<forall>ch \<in> set (butlast cs). 2 \<le> int (length (ChunkData ch))))"
proof -
  have a: "(0::int) < 2" and b: "(2::int) \<le> 4" and c: "(4::int) \<le> 4" by simp_all
  have d: "delivered ex_reader = Inr [1, 2, 3, 4, 5]" by (simp add: ex_reader_def)
  from Chunk_coverage[OF a b c d, of ex_lib] a b c d show ?thesis by blast
qed

text \<open>
  C8. Two runs of \<open>Chunk\<close> with the same parameters on readers that deliver the same bytes
  \<open>X\<close>, in whatever pieces, return the same chunks, hence the same sequence of
  (offset, length, digest) triples.
\<close>

theorem Chunk_deterministic:
  assumes "delivered rd1 = Inr X" and "delivered rd2 = Inr X"
  shows "\<exists>cs1 cs2. Chunker_Chunk L c rd1 = Inr cs1 \<and> Chunker_Chunk L c rd2 = Inr cs2
           \<and> chunk_triples cs1 = chunk_triples cs2 \<and> cs1 = cs2"
  using assms by (simp add: Chunker_Chunk_def chunk_loop_delivered)

theorem Chunk_deterministic_witness:
  "delivered ex_reader = Inr [1, 2, 3, 4, 5] \<and> delivered ex_reader' = Inr [1, 2, 3, 4, 5]
   \<and> (\<exists>cs1 cs2. Chunker_Chunk ex_lib (chunker_New 2 4 4) ex_reader = Inr cs1
         \<and> Chunker_Chunk ex_lib (chunker_New 2 4 4) ex_reader' = Inr cs2
         \<and> chunk_triples cs1 = chunk_triples cs2 \<and> cs1 = cs2)"
proof -
  have a: "delivered ex_reader = Inr [1, 2, 3, 4, 5]" by (simp add: ex_reader_def)
  have b: "delivered ex_reader' = Inr [1, 2, 3, 4, 5]" by (simp add: ex_reader'_def)
  from Chunk_deterministic[OF a b, of ex_lib "chunker_New 2 4 4"] a b show ?thesis by blast
qed


section \<open>Properties of the exclusion and inclusion patterns\<close>













text \<open>The walk of the whole example directory keeps the root and \<open>b.txt\<close> only.\<close>

lemma Walk_example:
  "map fst (Files (snd (Walk ex_lib ex_scanner ''/d'' ex_source ex_tree0))) = [''.'', ''b.txt'']"
  by code_simp

lemma any_match_iff: "any_match L path ps \<longleftrightarrow> (\<exists>p \<in> set ps. matchPattern L path p)"
  by (induction ps) auto

lemma restore_loop_filter:
  "restore_loop L r fs opts fl result t =
   restore_loop L r fs opts
     (filter (\<lambda>(p, n). shouldRestore L p (IncludePattern opts) (ExcludePattern opts)) fl) result t"
proof (induction fl arbitrary: result t)
  case Nil
  then show ?case by simp
next
  case (Cons a fl)
  obtain p n where a: "a = (p, n)" by (cases a)
  show ?case unfolding a
    by (simp add: Let_def Cons.IH split: prod.splits option.splits)
qed

text \<open>
  C9. A path passes \<open>shouldRestore\<close> if and only if the include list is empty or one of
  its patterns matches the path, and no exclude pattern matches the path. \<open>Restore\<close>
  behaves exactly as on the snapshot from which the files that do not pass have been
  removed: such a file is never restored, whatever the include patterns say.
\<close>

theorem shouldRestore_rule:
  "(shouldRestore L path includes excludes \<longleftrightarrow>
      (includes = [] \<or> (\<exists>p \<in> set includes. matchPattern L path p))
      \<and> \<not> (\<exists>p \<in> set excludes. matchPattern L path p))
   \<and> Restore L r fs snapshot opts t =
       Restore L r fs
         (snapshot\<lparr>Tree := (Tree snapshot)\<lparr>Files :=
             filter (\<lambda>(p, n). shouldRestore L p (IncludePattern opts) (ExcludePattern opts))
               (Files (Tree snapshot))\<rparr>\<rparr>) opts t"
proof
  show "shouldRestore L path includes excludes \<longleftrightarrow>
      (includes = [] \<or> (\<exists>p \<in> set includes. matchPattern L path p))
      \<and> \<not> (\<exists>p \<in> set excludes. matchPattern L path p)"
    by (auto simp: shouldRestore_def Let_def any_match_iff)
next
  have eq: "restore_loop L r fs opts
       (filter (\<lambda>(p, n). shouldRestore L p (IncludePattern opts) (ExcludePattern opts))
          (Files (Tree snapshot))) R t = restore_loop L r fs opts (Files (Tree snapshot)) R t" for R
    by (rule restore_loop_filter[symmetric])
  show "Restore L r fs snapshot opts t =
       Restore L r fs
         (snapshot\<lparr>Tree := (Tree snapshot)\<lparr>Files :=
             filter (\<lambda>(p, n). shouldRestore L p (IncludePattern opts) (ExcludePattern opts))
               (Files (Tree snapshot))\<rparr>\<rparr>) opts t"
    by (cases "MkdirAll (tfs t) (TargetPath opts)") (simp_all add: Restore_def eq)
qed

theorem shouldRestore_rule_witness:
  "\<not> shouldRestore ex_lib ''docs/secret.txt'' [''*.txt''] [''secret*'']
   \<and> (\<exists>p \<in> set [''*.txt'']. matchPattern ex_lib ''docs/secret.txt'' p)
   \<and> (\<exists>p \<in> set [''secret*'']. matchPattern ex_lib ''docs/secret.txt'' p)
   \<and> shouldRestore ex_lib ''docs/a.txt'' [''*.txt''] [''secret*'']
   \<and> shouldRestore ex_lib ''docs/a.bin'' [] [''secret*'']
   \<and> \<not> shouldRestore ex_lib ''docs/a.bin'' [''*.txt''] []"
proof -
  have a: "matchPattern ex_lib ''docs/secret.txt'' ''*.txt''" by code_simp
  have b: "matchPattern ex_lib ''docs/secret.txt'' ''secret*''" by code_simp
  have c: "matchPattern ex_lib ''docs/a.txt'' ''*.txt''" by code_simp
  have d: "\<not> matchPattern ex_lib ''docs/a.txt'' ''secret*''" by code_simp
  have e: "\<not> matchPattern ex_lib ''docs/a.bin'' ''secret*''" by code_simp
  have f: "\<not> matchPattern ex_lib ''docs/a.bin'' ''*.txt''" by code_simp
  from shouldRestore_rule[of ex_lib "''docs/secret.txt''" "[''*.txt'']" "[''secret*'']"]
       shouldRestore_rule[of ex_lib "''docs/a.txt''" "[''*.txt'']" "[''secret*'']"]
       shouldRestore_rule[of ex_lib "''docs/a.bin''" "[]" "[''secret*'']"]
       shouldRestore_rule[of ex_lib "''docs/a.bin''" "[''*.txt'']" "[]"]
       a b c d e f
  show ?thesis by simp
qed


section \<open>Properties of the snapshot manager\<close>

lemma grows_refl [simp]: "grows w w"
  by (simp add: grows_def)

lemma grows_trans: "grows w1 w2 \<Longrightarrow> grows w2 w3 \<Longrightarrow> grows w1 w3"
  unfolding grows_def by (auto intro: map_le_trans)

lemma Put_grows:
  assumes "Put L c fs d = (r, c', fs')"
  shows "faults fs' = faults fs \<and> dom (files fs) \<subseteq> dom (files fs')
       \<and> ((\<forall>p. \<not> faults fs OpStat p) \<longrightarrow> files fs \<subseteq>\<^sub>m files fs')"
proof (cases "Has c fs (sha256hex L d)")
  case True
  with assms show ?thesis by (auto simp: Put_def Let_def)
next
  case False
  have absent: "files fs (objectPath c (sha256hex L d)) = None" if "\<forall>p. \<not> faults fs OpStat p"
    using False that by (auto simp: Has_def Stat_def split: option.splits)
  show ?thesis
    using assms False absent
    by (auto simp: Put_def Let_def WriteFile_def map_le_def
             split: if_splits option.splits sum.splits)
qed

lemma Encrypt_grows:
  assumes "Encrypt L en p w = (r, w')"
  shows "grows w w'"
  using assms by (auto simp: Encrypt_def Let_def grows_def split: option.splits)

lemma store_chunks_grows:
  assumes "store_chunks L cs hs k m w = (r, m', w')"
  shows "grows w w' \<and> repoPath m' = repoPath m"
  using assms
proof (induction L cs hs k m w rule: store_chunks.induct)
  case (1 L chunkHashes k m w)
  then show ?case by simp
next
  case (2 L chunk rest chunkHashes k m w)
  show ?case
  proof (cases "case compressor m of None \<Rightarrow> Inr (ChunkData chunk)
                 | Some cp \<Rightarrow> Compress L cp (ChunkData chunk)")
    case (Inl e)
    with "2.prems" show ?thesis by simp
  next
    case (Inr data1)
    obtain r2 w1 where E: "(case encryptor m of None \<Rightarrow> (Inr data1, w)
                            | Some en \<Rightarrow> Encrypt L en data1 w) = (r2, w1)"
      by (cases "case encryptor m of None \<Rightarrow> (Inr data1, w) | Some en \<Rightarrow> Encrypt L en data1 w")
    have g1: "grows w w1"
      using E Encrypt_grows by (cases "encryptor m") auto
    show ?thesis
    proof (cases r2)
      case (Inl e)
      with "2.prems" Inr E g1 show ?thesis by simp
    next
      case data2: (Inr data2)
      show ?thesis
      proof (cases "Has (cas m) (repo w1) (ChunkHash chunk)")
        case True
        from "2.IH"(2)[OF Inr E[symmetric] data2 _ ] True "2.prems" Inr E data2
        have "grows w1 w' \<and> repoPath m' = repoPath m" by simp
        with g1 show ?thesis by (blast intro: grows_trans)
      next
        case False
        obtain r3 c' fs' where P: "Put L (cas m) (repo w1) data2 = (r3, c', fs')"
          by (cases "Put L (cas m) (repo w1) data2")
        from Put_grows[OF P] have g2: "grows w1 (w1\<lparr>repo := fs'\<rparr>)"
          by (simp add: grows_def)
        show ?thesis
        proof (cases r3)
          case (Inl e)
          with "2.prems" Inr E data2 False P have "w' = w1\<lparr>repo := fs'\<rparr>" "m' = m\<lparr>cas := c'\<rparr>"
            by simp_all
          with g1 g2 show ?thesis by (auto intro: grows_trans)
        next
          case h: (Inr h)
          from "2.IH"(1)[OF Inr E[symmetric] data2 _ P[symmetric]] False h "2.prems" Inr E data2 P
          have "grows (w1\<lparr>repo := fs'\<rparr>) w' \<and> repoPath m' = repoPath (m\<lparr>cas := c'\<rparr>)" by simp
          with g1 g2 show ?thesis by (auto intro: grows_trans)
        qed
      qed
    qed
  qed
qed


lemma process_files_grows:
  assumes "process_files L todo tree k m w = (r, m', w')"
  shows "grows w w' \<and> repoPath m' = repoPath m"
  using assms
proof (induction L todo tree k m w rule: process_files.induct)
  case (1 L tree k m w)
  then show ?case by simp
next
  case (2 L relPath nodeptr rest tree k m w)
  show ?case
  proof (cases nodeptr)
    case None
    with "2.prems" show ?thesis by simp
  next
    case (Some node)
    show ?thesis
    proof (cases "IsDir node")
      case True
      with "2.IH"(1)[OF Some True] "2.prems" Some show ?thesis by simp
    next
      case False
      show ?thesis
      proof (cases "opens w (Path node)")
        case (Inl e)
        with "2.prems" Some False show ?thesis by simp
      next
        case rd: (Inr rd)
        show ?thesis
        proof (cases "Chunker_Chunk L (chunker m) rd")
          case (Inl e)
          with "2.prems" Some False rd show ?thesis by simp
        next
          case cs: (Inr cs)
          obtain r1 m1 w1 where S: "store_chunks L cs [] k m w = (r1, m1, w1)"
            by (cases "store_chunks L cs [] k m w")
          from store_chunks_grows[OF S] have g1: "grows w w1" "repoPath m1 = repoPath m"
            by simp_all
          show ?thesis
          proof (cases r1)
            case (Inl e)
            with "2.prems" Some False rd cs S g1 show ?thesis by simp
          next
            case ok: (Inr hk)
            obtain chunkHashes k1 where hk: "hk = (chunkHashes, k1)" by (cases hk)
            show ?thesis
            proof (cases "map_of (Files tree) relPath = None")
              case True
              with "2.prems" Some False rd cs S ok hk g1 show ?thesis by simp
            next
              case present: False
              from "2.IH"(2)[OF Some False rd cs S[symmetric] ok hk[symmetric] _ present]
                   "2.prems" Some False rd cs S ok hk present
              have "grows w1 w' \<and> repoPath m' = repoPath m1" by simp
              with g1 show ?thesis by (auto intro: grows_trans)
            qed
          qed
        qed
      qed
    qed
  qed
qed

lemma Now_grows: "Now w = (t, w') \<Longrightarrow> grows w w'"
  by (auto simp: Now_def grows_def)

lemma Create_build_grows:
  assumes "Create_build L m w src descr parent = (r, m', w')"
  shows "grows w w' \<and> repoPath m' = repoPath m"
proof -
  obtain t1 w1 where n1: "Now w = (t1, w1)" by (cases "Now w")
  obtain t2 w2 where n2: "Now w1 = (t2, w2)" by (cases "Now w1")
  obtain t3 w3 where n3: "Now w2 = (t3, w3)" by (cases "Now w2")
  have g3: "grows w w1" "grows w w3"
    using Now_grows[OF n1] Now_grows[OF n2] Now_grows[OF n3] by (auto intro: grows_trans)
  show ?thesis
  proof (cases "ScanWithHashes L (scanner m) w1 src")
    case (Inl e)
    with assms n1 g3 show ?thesis by (simp add: Create_build_def)
  next
    case (Inr tree)
    show ?thesis
    proof (cases "files_to_process (parent_tree m w1 parent) tree")
      case (Inl e)
      with assms n1 n2 n3 Inr g3 show ?thesis by (simp add: Create_build_def)
    next
      case ok: (Inr ft)
      obtain todo tree1 where ft: "ft = (todo, tree1)" by (cases ft)
      obtain r1 m1 w4 where P: "process_files L todo tree1
           \<lparr>newChunks = 0, totalChunks = 0, storedSize = 0\<rparr> m w3 = (r1, m1, w4)"
        by (cases "process_files L todo tree1 \<lparr>newChunks = 0, totalChunks = 0, storedSize = 0\<rparr> m w3")
      from process_files_grows[OF P] have g4: "grows w3 w4" "repoPath m1 = repoPath m" by simp_all
      show ?thesis
      proof (cases r1)
        case (Inl e)
        with assms n1 n2 n3 Inr ok ft P have "w' = w4" "m' = m1"
          by (simp_all add: Create_build_def)
        with g3 g4 show ?thesis by (auto intro: grows_trans)
      next
        case res: (Inr tk)
        obtain tree2 k where tk: "tk = (tree2, k)" by (cases tk)
        obtain t5 w5 where n5: "Now w4 = (t5, w5)" by (cases "Now w4")
        from assms n1 n2 n3 Inr ok ft P res tk n5 have "w' = w5" "m' = m1"
          by (simp_all add: Create_build_def)
        with g3 g4 Now_grows[OF n5] show ?thesis by (auto intro: grows_trans)
      qed
    qed
  qed
qed

lemma grows_Manager_Get:
  assumes "grows w w'" "repoPath m' = repoPath m"
  shows "Manager_Get m' w' ident = Manager_Get m w ident"
  using assms by (auto simp: Manager_Get_def grows_def Let_def split: option.splits)

lemma grows_list_loop:
  assumes "grows w w'" "repoPath m' = repoPath m"
  shows "list_loop m' w' nms = list_loop m w nms"
  by (induction nms) (simp_all add: grows_Manager_Get[OF assms] split: sum.splits)

lemma grows_Manager_List:
  assumes "grows w w'" "repoPath m' = repoPath m"
  shows "Manager_List m' w' = Manager_List m w"
  using assms by (simp add: Manager_List_def grows_def Let_def grows_list_loop[OF assms])

lemma store_chunks_append:
  "store_chunks L (cs1 @ cs2) hs k m w =
     (case store_chunks L cs1 hs k m w of
        (Inl e, m1, w1) \<Rightarrow> (Inl e, m1, w1)
      | (Inr (hs1, k1), m1, w1) \<Rightarrow> store_chunks L cs2 hs1 k1 m1 w1)"
proof (induction L cs1 hs k m w rule: store_chunks.induct)
  case (1 L chunkHashes k m w)
  then show ?case by simp
next
  case (2 L chunk rest chunkHashes k m w)
  show ?case
  proof (cases "case compressor m of None \<Rightarrow> Inr (ChunkData chunk)
                 | Some cp \<Rightarrow> Compress L cp (ChunkData chunk)")
    case (Inl e)
    then show ?thesis by simp
  next
    case (Inr data1)
    obtain r2 w1 where E: "(case encryptor m of None \<Rightarrow> (Inr data1, w)
                            | Some en \<Rightarrow> Encrypt L en data1 w) = (r2, w1)"
      by (cases "case encryptor m of None \<Rightarrow> (Inr data1, w) | Some en \<Rightarrow> Encrypt L en data1 w")
    show ?thesis
    proof (cases r2)
      case (Inl e)
      with Inr E show ?thesis by simp
    next
      case data2: (Inr data2)
      show ?thesis
      proof (cases "Has (cas m) (repo w1) (ChunkHash chunk)")
        case True
        from "2.IH"(2)[OF Inr E[symmetric] data2 _ ] True Inr E data2
        show ?thesis by simp
      next
        case False
        obtain r3 c' fs' where P: "Put L (cas m) (repo w1) data2 = (r3, c', fs')"
          by (cases "Put L (cas m) (repo w1) data2")
        show ?thesis
        proof (cases r3)
          case (Inl e)
          with Inr E data2 False P show ?thesis by simp
        next
          case h: (Inr h)
          from "2.IH"(1)[OF Inr E[symmetric] data2 _ P[symmetric]] False h Inr E data2 P
          show ?thesis by simp
        qed
      qed
    qed
  qed
qed

lemma process_files_append:
  "process_files L (todo1 @ todo2) tree k m w =
     (case process_files L todo1 tree k m w of
        (Inl e, m1, w1) \<Rightarrow> (Inl e, m1, w1)
      | (Inr (tree1, k1), m1, w1) \<Rightarrow> process_files L todo2 tree1 k1 m1 w1)"
proof (induction L todo1 tree k m w rule: process_files.induct)
  case (1 L tree k m w)
  then show ?case by simp
next
  case (2 L relPath nodeptr rest tree k m w)
  show ?case
  proof (cases nodeptr)
    case None
    then show ?thesis by simp
  next
    case (Some node)
    show ?thesis
    proof (cases "IsDir node")
      case True
      with "2.IH"(1)[OF Some True] Some show ?thesis by simp
    next
      case False
      show ?thesis
      proof (cases "opens w (Path node)")
        case (Inl e)
        with Some False show ?thesis by simp
      next
        case rd: (Inr rd)
        show ?thesis
        proof (cases "Chunker_Chunk L (chunker m) rd")
          case (Inl e)
          with Some False rd show ?thesis by simp
        next
          case cs: (Inr cs)
          obtain r1 m1 w1 where S: "store_chunks L cs [] k m w = (r1, m1, w1)"
            by (cases "store_chunks L cs [] k m w")
          show ?thesis
          proof (cases r1)
            case (Inl e)
            with Some False rd cs S show ?thesis by simp
          next
            case ok: (Inr hk)
            obtain chunkHashes k1 where hk: "hk = (chunkHashes, k1)" by (cases hk)
            show ?thesis
            proof (cases "map_of (Files tree) relPath = None")
              case True
              with Some False rd cs S ok hk show ?thesis by simp
            next
              case present: False
              then obtain nd where nd: "map_of (Files tree) relPath = Some nd" by auto
              from "2.IH"(2)[OF Some False rd cs S[symmetric] ok hk[symmetric] _ present]
                   Some False rd cs S ok hk nd
              show ?thesis by simp
            qed
          qed
        qed
      qed
    qed
  qed
qed


text \<open>
  C7. When \<open>Create\<close> fails at any step before the snapshot record is saved (scan, open,
  chunk, compress, encrypt or store), the records under \<open>snapshots/\<close> are what they were, so
  \<open>Get\<close>, \<open>List\<close> and \<open>Latest\<close> answer as before the call, and no file of the repository
  has been removed. The objects written before the failure stay on disk: whatever object
  file exists once the loop has processed some of the files, and then some of the chunks
  of the next file, still exists in the repository that the failed call leaves behind.
\<close>

theorem Create_failure_leaves_no_snapshot:
  assumes "Create L m w src descr parent = (Inl e, m', w')" and "\<not> save_failure e"
  shows "snapfiles w' = snapfiles w
       \<and> (\<forall>ident. Manager_Get m' w' ident = Manager_Get m w ident)
       \<and> Manager_List m' w' = Manager_List m w
       \<and> Manager_Latest m' w' = Manager_Latest m w
       \<and> dom (files (repo w)) \<subseteq> dom (files (repo w'))
       \<and> ((\<forall>p. \<not> faults (repo w) OpStat p) \<longrightarrow> files (repo w) \<subseteq>\<^sub>m files (repo w'))
       \<and> (ScanWithHashes L (scanner m) (snd (Now w)) src = Inr tree
          \<and> files_to_process (parent_tree m (snd (Now w)) parent) tree = Inr (pre @ rest, tree1)
          \<and> process_files L pre tree1 \<lparr>newChunks = 0, totalChunks = 0, storedSize = 0\<rparr> m
                (snd (Now (snd (Now (snd (Now w)))))) = (Inr (tree2, k1), m1, w1)
          \<longrightarrow> dom (files (repo w1)) \<subseteq> dom (files (repo w'))
            \<and> ((\<forall>p. \<not> faults (repo w) OpStat p) \<longrightarrow> files (repo w1) \<subseteq>\<^sub>m files (repo w'))
            \<and> (rest = (relPath, Some node) # rest' \<and> \<not> IsDir node
               \<and> opens w1 (Path node) = Inr rd
               \<and> Chunker_Chunk L (chunker m1) rd = Inr (cs1 @ cs2)
               \<and> store_chunks L cs1 [] k1 m1 w1 = (Inr (hs, k2), m2, w2)
               \<longrightarrow> dom (files (repo w2)) \<subseteq> dom (files (repo w'))
                 \<and> ((\<forall>p. \<not> faults (repo w) OpStat p) \<longrightarrow>
                        files (repo w2) \<subseteq>\<^sub>m files (repo w'))))"
proof -
  obtain r1 mb wb where B: "Create_build L m w src descr parent = (r1, mb, wb)"
    by (cases "Create_build L m w src descr parent")
  have "r1 = Inl e \<and> mb = m' \<and> wb = w'"
  proof (cases r1)
    case (Inl e1)
    with assms(1) B show ?thesis by (simp add: Create_def)
  next
    case (Inr snapshot)
    with assms B show ?thesis
      by (cases "saveSnapshot mb wb snapshot")
         (auto simp: Create_def save_failure_def split: option.splits)
  qed
  with B have B': "Create_build L m w src descr parent = (Inl e, m', w')" by simp
  from Create_build_grows[OF B'] have g: "grows w w'" "repoPath m' = repoPath m" by simp_all
  have latest: "Manager_Latest m' w' = Manager_Latest m w"
    by (simp add: Manager_Latest_def grows_Manager_List[OF g])
  let ?k0 = "\<lparr>newChunks = 0, totalChunks = 0, storedSize = 0\<rparr>"
  let ?w3 = "snd (Now (snd (Now (snd (Now w)))))"
  have g03: "grows w ?w3"
    by (auto simp: Now_def grows_def)
  have part2: "dom (files (repo w1)) \<subseteq> dom (files (repo w'))
            \<and> ((\<forall>p. \<not> faults (repo w) OpStat p) \<longrightarrow> files (repo w1) \<subseteq>\<^sub>m files (repo w'))
            \<and> (rest = (relPath, Some node) # rest' \<and> \<not> IsDir node
               \<and> opens w1 (Path node) = Inr rd
               \<and> Chunker_Chunk L (chunker m1) rd = Inr (cs1 @ cs2)
               \<and> store_chunks L cs1 [] k1 m1 w1 = (Inr (hs, k2), m2, w2)
               \<longrightarrow> dom (files (repo w2)) \<subseteq> dom (files (repo w'))
                 \<and> ((\<forall>p. \<not> faults (repo w) OpStat p) \<longrightarrow>
                        files (repo w2) \<subseteq>\<^sub>m files (repo w')))"
    if scan: "ScanWithHashes L (scanner m) (snd (Now w)) src = Inr tree"
    and ftp: "files_to_process (parent_tree m (snd (Now w)) parent) tree = Inr (pre @ rest, tree1)"
    and pp: "process_files L pre tree1 ?k0 m ?w3 = (Inr (tree2, k1), m1, w1)"
  proof -
    obtain rp mp wp where P: "process_files L (pre @ rest) tree1 ?k0 m ?w3 = (rp, mp, wp)"
      by (cases "process_files L (pre @ rest) tree1 ?k0 m ?w3")
    have "rp = Inl e \<and> mp = m' \<and> wp = w'"
      using B' scan ftp P
      by (cases rp)
         (auto simp: Create_build_def split: prod.splits)
    with P have P': "process_files L (pre @ rest) tree1 ?k0 m ?w3 = (Inl e, m', w')" by simp
    have R: "process_files L rest tree2 k1 m1 w1 = (Inl e, m', w')"
      using P' pp by (simp add: process_files_append)
    from process_files_grows[OF R] have g1: "grows w1 w'" by simp
    from process_files_grows[OF pp] g03 have g01: "grows w w1" by (blast intro: grows_trans)
    have chunk: "dom (files (repo w2)) \<subseteq> dom (files (repo w'))
                 \<and> ((\<forall>p. \<not> faults (repo w) OpStat p) \<longrightarrow>
                        files (repo w2) \<subseteq>\<^sub>m files (repo w'))"
      if rest: "rest = (relPath, Some node) # rest'" and nd: "\<not> IsDir node"
      and op: "opens w1 (Path node) = Inr rd"
      and ch: "Chunker_Chunk L (chunker m1) rd = Inr (cs1 @ cs2)"
      and st: "store_chunks L cs1 [] k1 m1 w1 = (Inr (hs, k2), m2, w2)"
    proof -
      obtain rx mx wx where X: "store_chunks L cs2 hs k2 m2 w2 = (rx, mx, wx)"
        by (cases "store_chunks L cs2 hs k2 m2 w2")
      from store_chunks_grows[OF X] have g2: "grows w2 wx" by simp
      from store_chunks_grows[OF st] g01 have g02: "grows w w2" by (blast intro: grows_trans)
      have full: "store_chunks L (cs1 @ cs2) [] k1 m1 w1 = (rx, mx, wx)"
        using st X by (simp add: store_chunks_append)
      have "grows wx w'"
      proof (cases rx)
        case (Inl ex)
        with R rest nd op ch full have "w' = wx" by simp
        then show ?thesis by simp
      next
        case (Inr hk)
        obtain hs' k' where hk: "hk = (hs', k')" by (cases hk)
        show ?thesis
        proof (cases "map_of (Files tree2) relPath")
          case None
          with R rest nd op ch full Inr hk have "w' = wx" by simp
          then show ?thesis by simp
        next
          case (Some n0)
          with R rest nd op ch full Inr hk
          have "process_files L rest'
                  (tree2\<lparr>Files := set_node relPath (\<lambda>n. n\<lparr>Chunks := hs'\<rparr>) (Files tree2)\<rparr>)
                  k' mx wx = (Inl e, m', w')" by simp
          from process_files_grows[OF this] show ?thesis by simp
        qed
      qed
      with g2 have "grows w2 w'" by (rule grows_trans)
      with g02 show ?thesis by (simp add: grows_def)
    qed
    from g1 g01 chunk show ?thesis by (simp add: grows_def)
  qed
  from g grows_Manager_Get[OF g] grows_Manager_List[OF g] latest part2 show ?thesis
    by (simp add: grows_def)
qed

theorem Create_failure_leaves_no_snapshot_witness:
  "ex_failed =
     (Inl (Wrapped ''storage failed'' (Wrapped ''failed to write object'' (ErrIO ''/r/objects/06/0607''))),
      fst (snd ex_failed), snd (snd ex_failed))
   \<and> \<not> save_failure (Wrapped ''storage failed'' (Wrapped ''failed to write object'' (ErrIO ''/r/objects/06/0607'')))
   \<and> ScanWithHashes ex_lib (scanner ex_manager_small) (snd (Now ex_world_fault)) ''/d'' = Inr ex_scanned
   \<and> files_to_process (parent_tree ex_manager_small (snd (Now ex_world_fault)) []) ex_scanned =
       Inr (take 2 ex_todo @ drop 2 ex_todo, ex_scanned)
   \<and> ex_after_a =
       (Inr (fst (projr (fst ex_after_a)), snd (projr (fst ex_after_a))),
        fst (snd ex_after_a), snd (snd ex_after_a))
   \<and> drop 2 ex_todo = (''b.txt'', Some ex_node_b) # []
   \<and> \<not> IsDir ex_node_b
   \<and> opens (snd (snd ex_after_a)) (Path ex_node_b) = Inr [([4, 5, 6, 7], Some EOF)]
   \<and> Chunker_Chunk ex_lib (chunker (fst (snd ex_after_a))) [([4, 5, 6, 7], Some EOF)] =
       Inr ([createChunk ex_lib [4, 5] 0] @ [createChunk ex_lib [6, 7] 2])
   \<and> ex_after_b1 =
       (Inr (fst (projr (fst ex_after_b1)), snd (projr (fst ex_after_b1))),
        fst (snd ex_after_b1), snd (snd ex_after_b1))
   \<and> snapfiles (snd (snd ex_failed)) = snapfiles ex_world_fault
   \<and> Manager_List (fst (snd ex_failed)) (snd (snd ex_failed)) = Manager_List ex_manager_small ex_world_fault
   \<and> (\<forall>p. \<not> faults (repo ex_world_fault) OpStat p)
   \<and> dom (files (repo (snd (snd ex_after_a)))) \<subseteq> dom (files (repo (snd (snd ex_failed))))
   \<and> files (repo (snd (snd ex_after_a))) \<subseteq>\<^sub>m files (repo (snd (snd ex_failed)))
   \<and> dom (files (repo (snd (snd ex_after_b1)))) \<subseteq> dom (files (repo (snd (snd ex_failed))))
   \<and> files (repo (snd (snd ex_after_b1))) \<subseteq>\<^sub>m files (repo (snd (snd ex_failed)))
   \<and> files (repo (snd (snd ex_after_a))) ''/r/objects/01/0102'' = Some [1, 2]
   \<and> files (repo (snd (snd ex_after_b1))) ''/r/objects/04/0405'' = Some [4, 5]
   \<and> files (repo (snd (snd ex_failed))) ''/r/objects/01/0102'' = Some [1, 2]
   \<and> files (repo (snd (snd ex_failed))) ''/r/objects/04/0405'' = Some [4, 5]"
proof -
  let ?E = "Wrapped ''storage failed'' (Wrapped ''failed to write object'' (ErrIO ''/r/objects/06/0607''))"
  let ?k0 = "\<lparr>newChunks = 0, totalChunks = 0, storedSize = 0\<rparr>"
  have e: "fst ex_failed = Inl ?E" by code_simp
  have h1: "ex_failed = (Inl ?E, fst (snd ex_failed), snd (snd ex_failed))"
    using e by (metis prod.collapse)
  have h1': "Create ex_lib ex_manager_small ex_world_fault ''/d'' ''first'' [] =
               (Inl ?E, fst (snd ex_failed), snd (snd ex_failed))"
    using h1 by (simp only: ex_failed_def)
  have h2: "\<not> save_failure ?E" by (simp add: save_failure_def)
  have "\<not> isl (ScanWithHashes ex_lib (scanner ex_manager_small) (snd (Now ex_world_fault)) ''/d'')"
    by code_simp
  then have h3: "ScanWithHashes ex_lib (scanner ex_manager_small) (snd (Now ex_world_fault)) ''/d''
                  = Inr ex_scanned"
    by (simp add: ex_scanned_def)
  have h4: "files_to_process (parent_tree ex_manager_small (snd (Now ex_world_fault)) []) ex_scanned =
       Inr (take 2 ex_todo @ drop 2 ex_todo, ex_scanned)"
    by (simp add: files_to_process_def parent_tree_def ex_todo_def)
  have "\<not> isl (fst ex_after_a)" by code_simp
  then have h5: "ex_after_a =
       (Inr (fst (projr (fst ex_after_a)), snd (projr (fst ex_after_a))),
        fst (snd ex_after_a), snd (snd ex_after_a))"
    by (metis prod.collapse sum.collapse(2))
  have h5': "process_files ex_lib (take 2 ex_todo) ex_scanned ?k0 ex_manager_small
       (snd (Now (snd (Now (snd (Now ex_world_fault)))))) =
       (Inr (fst (projr (fst ex_after_a)), snd (projr (fst ex_after_a))),
        fst (snd ex_after_a), snd (snd ex_after_a))"
    using h5 by (simp only: ex_after_a_def)
  have h6: "drop 2 ex_todo = (''b.txt'', Some ex_node_b) # []" by code_simp
  have h7: "\<not> IsDir ex_node_b" by (simp add: ex_node_b_def)
  have h8: "opens (snd (snd ex_after_a)) (Path ex_node_b) = Inr [([4, 5, 6, 7], Some EOF)]"
    by code_simp
  have h9: "Chunker_Chunk ex_lib (chunker (fst (snd ex_after_a))) [([4, 5, 6, 7], Some EOF)] =
       Inr ([createChunk ex_lib [4, 5] 0] @ [createChunk ex_lib [6, 7] 2])" by code_simp
  have "\<not> isl (fst ex_after_b1)" by code_simp
  then have h10: "ex_after_b1 =
       (Inr (fst (projr (fst ex_after_b1)), snd (projr (fst ex_after_b1))),
        fst (snd ex_after_b1), snd (snd ex_after_b1))"
    by (metis prod.collapse sum.collapse(2))
  have h10': "store_chunks ex_lib [createChunk ex_lib [4, 5] 0] [] (snd (projr (fst ex_after_a)))
       (fst (snd ex_after_a)) (snd (snd ex_after_a)) =
       (Inr (fst (projr (fst ex_after_b1)), snd (projr (fst ex_after_b1))),
        fst (snd ex_after_b1), snd (snd ex_after_b1))"
    using h10 by (simp only: ex_after_b1_def)
  have o1: "files (repo (snd (snd ex_after_a))) ''/r/objects/01/0102'' = Some [1, 2]" by code_simp
  have o2: "files (repo (snd (snd ex_after_b1))) ''/r/objects/04/0405'' = Some [4, 5]" by code_simp
  have o3: "files (repo (snd (snd ex_failed))) ''/r/objects/01/0102'' = Some [1, 2]" by code_simp
  have o4: "files (repo (snd (snd ex_failed))) ''/r/objects/04/0405'' = Some [4, 5]" by code_simp
  note T = Create_failure_leaves_no_snapshot[OF h1' h2, where tree = ex_scanned and pre = "take 2 ex_todo"
      and rest = "drop 2 ex_todo" and ?tree1.0 = ex_scanned
      and ?tree2.0 = "fst (projr (fst ex_after_a))" and ?k1.0 = "snd (projr (fst ex_after_a))"
      and ?m1.0 = "fst (snd ex_after_a)" and ?w1.0 = "snd (snd ex_after_a)"
      and relPath = "''b.txt''" and node = ex_node_b and rest' = "[]"
      and rd = "[([4, 5, 6, 7], Some EOF)]"
      and ?cs1.0 = "[createChunk ex_lib [4, 5] 0]" and ?cs2.0 = "[createChunk ex_lib [6, 7] 2]"
      and hs = "fst (projr (fst ex_after_b1))" and ?k2.0 = "snd (projr (fst ex_after_b1))"
      and ?m2.0 = "fst (snd ex_after_b1)" and ?w2.0 = "snd (snd ex_after_b1)"]
  have c1: "snapfiles (snd (snd ex_failed)) = snapfiles ex_world_fault"
    and c2: "Manager_List (fst (snd ex_failed)) (snd (snd ex_failed)) =
              Manager_List ex_manager_small ex_world_fault"
    using T by blast+
  have nf: "\<forall>p. \<not> faults (repo ex_world_fault) OpStat p"
    by (simp add: ex_world_fault_def ex_world_def ex_fs_def)
  have c3: "dom (files (repo (snd (snd ex_after_a)))) \<subseteq> dom (files (repo (snd (snd ex_failed))))"
    and c4: "dom (files (repo (snd (snd ex_after_b1)))) \<subseteq> dom (files (repo (snd (snd ex_failed))))"
    and c5: "files (repo (snd (snd ex_after_a))) \<subseteq>\<^sub>m files (repo (snd (snd ex_failed)))"
    and c6: "files (repo (snd (snd ex_after_b1))) \<subseteq>\<^sub>m files (repo (snd (snd ex_failed)))"
    using T h3 h4 h5' h6 h7 h8 h9 h10' nf by blast+
  show ?thesis
    by (intro conjI h1 h2 h3 h4 h5 h6 h7 h8 h9 h10 c1 c2 nf c3 c5 c4 c6 o1 o2 o3 o4)
qed

text \<open>
  Storing one new chunk with compression enabled, on a store without faults: the object
  goes under the digest of the compressed bytes, nothing is stored under the digest of
  the chunk, and \<open>Get\<close> of the chunk's digest finds no object.
\<close>

lemma store_chunk_compressed:
  assumes "compressor m = Some cp" and "encryptor m = None"
      and "Compress L cp (ChunkData chunk) = Inr stored"
      and "fault_free (repo w)"
      and "\<not> Has (cas m) (repo w) (ChunkHash chunk)"
      and "objectPath (cas m) (sha256hex L stored) \<noteq> objectPath (cas m) (ChunkHash chunk)"
  shows "\<exists>k' m' w'. store_chunks L [chunk] [] k m w = (Inr ([ChunkHash chunk], k'), m', w')
        \<and> Has (cas m') (repo w') (sha256hex L stored)
        \<and> (files (repo w) (objectPath (cas m) (sha256hex L stored)) = None \<longrightarrow>
             files (repo w') (objectPath (cas m') (sha256hex L stored)) = Some stored)
        \<and> \<not> Has (cas m') (repo w') (ChunkHash chunk)
        \<and> Get L (cas m') (repo w') (ChunkHash chunk) = Inl (ObjectNotFound (ChunkHash chunk))"
proof -
  have absent: "files (repo w) (objectPath (cas m) (ChunkHash chunk)) = None"
    using assms(4,5) by (simp add: Has_iff)
  show ?thesis
  proof (cases "files (repo w) (objectPath (cas m) (sha256hex L stored))")
    case None
    have P: "Put L (cas m) (repo w) stored =
      (Inr (sha256hex L stored), (cas m)\<lparr>refCount := (refCount (cas m))(sha256hex L stored \<mapsto> 1)\<rparr>,
       (repo w)\<lparr>files := (files (repo w))(objectPath (cas m) (sha256hex L stored) \<mapsto> stored)\<rparr>)"
      using Put_fresh[OF assms(4) None] .
    have ff: "fault_free ((repo w)\<lparr>files := (files (repo w))(objectPath (cas m) (sha256hex L stored) \<mapsto> stored)\<rparr>)"
      using assms(4) by (simp add: fault_free_def)
    show ?thesis
      using assms(1,2,3,5,6) absent P None
      by (simp add: Get_def ReadFile_def IsNotExist_def Has_iff[OF ff])
  next
    case (Some old)
    have P: "Put L (cas m) (repo w) stored =
      (Inr (sha256hex L stored),
       (cas m)\<lparr>refCount := (refCount (cas m))(sha256hex L stored \<mapsto> count_of (cas m) (sha256hex L stored) + 1)\<rparr>,
       repo w)"
      using Some assms(4) by (simp add: Put_def Let_def Has_iff)
    show ?thesis
      using assms(1,2,3,5,6) absent P Some
      by (simp add: Get_def ReadFile_def IsNotExist_def Has_iff[OF assms(4)])
  qed
qed




text \<open>
  C1 fails on the code when compression is enabled. In the example, \<open>Create\<close> records the
  digest of the plain bytes of each chunk in the file's chunk list and stores the object
  under the digest of the compressed bytes; \<open>Restore\<close> then asks the store for the recorded
  digest, finds no object, reports the error for both files and leaves \<open>a.txt\<close> empty.
\<close>

theorem Restore_after_compressed_backup:
  "case Create ex_lib ex_manager_zstd ex_world ''/d'' ''first'' [] of
     (Inl e, m', w') \<Rightarrow> False
   | (Inr snap, m', w') \<Rightarrow>
       map (\<lambda>(p, n). (p, Chunks n)) (Files (Tree snap)) =
          [(''.'', []), (''a.txt'', [''010203'']), (''b.txt'', [''040506''])]
       \<and> Compressed snap
       \<and> files (repo w') ''/r/objects/28/28010203'' = Some [0x28, 1, 2, 3]
       \<and> files (repo w') ''/r/objects/01/010203'' = None
       \<and> (case Restore ex_lib (NewRestorer (cas m') (compressor m') (encryptor m')) (repo w')
                  snap ex_opts ex_target of
            (Inl e, t') \<Rightarrow> False
          | (Inr res, t') \<Rightarrow>
              FilesRestored res = 0
              \<and> Errors res =
                  [(''a.txt'', Wrapped ''failed to get chunk 010203'' (ObjectNotFound ''010203'')),
                   (''b.txt'', Wrapped ''failed to get chunk 040506'' (ObjectNotFound ''040506''))]
              \<and> files (tfs t') ''/t/a.txt'' = Some [])"
  by code_simp

text \<open>
  The same backup with encryption instead of compression ends the same way, and without
  either of them both files are restored with their bytes.
\<close>

lemma Restore_after_encrypted_backup:
  "case Create ex_lib ex_manager_gcm ex_world_nonces ''/d'' ''first'' [] of
     (Inl e, m', w') \<Rightarrow> False
   | (Inr snap, m', w') \<Rightarrow>
       Encrypted snap
       \<and> (case Restore ex_lib (NewRestorer (cas m') (compressor m') (encryptor m')) (repo w')
                  snap ex_opts ex_target of
            (Inl e, t') \<Rightarrow> False
          | (Inr res, t') \<Rightarrow>
              FilesRestored res = 0
              \<and> map fst (Errors res) = [''a.txt'', ''b.txt'']
              \<and> files (tfs t') ''/t/a.txt'' = Some [])"
  by code_simp

lemma Restore_after_plain_backup:
  "case Create ex_lib ex_manager ex_world ''/d'' ''first'' [] of
     (Inl e, m', w') \<Rightarrow> False
   | (Inr snap, m', w') \<Rightarrow>
       (case Restore ex_lib (NewRestorer (cas m') (compressor m') (encryptor m')) (repo w')
                  snap ex_opts ex_target of
            (Inl e, t') \<Rightarrow> False
          | (Inr res, t') \<Rightarrow>
              FilesRestored res = 2 \<and> BytesRestored res = 6 \<and> Errors res = []
              \<and> files (tfs t') ''/t/a.txt'' = Some [1, 2, 3]
              \<and> files (tfs t') ''/t/b.txt'' = Some [4, 5, 6])"
  by code_simp

text \<open>
  The same for every library, one chunk and one file: after the chunk has been stored
  under compression, restoring a file whose chunk list is the recorded digest fails at
  the first \<open>Get\<close> and leaves the target file empty.
\<close>

lemma restoreFile_of_compressed_chunk:
  assumes "compressor m = Some cp" and "encryptor m = None"
      and "Compress L cp (ChunkData chunk) = Inr stored"
      and "fault_free (repo w)"
      and "\<not> Has (cas m) (repo w) (ChunkHash chunk)"
      and "objectPath (cas m) (sha256hex L stored) \<noteq> objectPath (cas m) (ChunkHash chunk)"
      and "\<not> DryRun opts" and "fault_free (tfs t)" and "Chunks node = [ChunkHash chunk]"
  shows "\<exists>k' m' w' t'.
           store_chunks L [chunk] [] k m w = (Inr (Chunks node, k'), m', w')
         \<and> restoreFile L (NewRestorer (cas m') (compressor m') (encryptor m')) (repo w') node
              targetPath opts t =
             (Some (Wrapped (''failed to get chunk '' @ ChunkHash chunk)
                      (ObjectNotFound (ChunkHash chunk))), t')
         \<and> files (tfs t') targetPath = Some []"
proof -
  from store_chunk_compressed[OF assms(1-6), of k]
  obtain k' m' w' where S: "store_chunks L [chunk] [] k m w = (Inr ([ChunkHash chunk], k'), m', w')"
    and G: "Get L (cas m') (repo w') (ChunkHash chunk) = Inl (ObjectNotFound (ChunkHash chunk))"
    by blast
  show ?thesis
    using S G assms(7,8,9)
    by (simp add: restoreFile_def MkdirAll_def os_Create_def fault_free_def NewRestorer_def)
qed

text \<open>
  C2 fails on the code in the same way, for every library: when compression is enabled and
  the object path of the digest of the compressed bytes differs from that of the chunk's
  digest, the object of a new chunk is on disk under the digest of the bytes stored, while
  the digest recorded for the file is the chunk's, for which the store has no object.
\<close>

theorem stored_object_addressed_by_stored_bytes:
  assumes "compressor m = Some cp" and "encryptor m = None"
      and "Compress L cp (ChunkData chunk) = Inr stored"
      and "fault_free (repo w)"
      and "\<not> Has (cas m) (repo w) (ChunkHash chunk)"
      and "objectPath (cas m) (sha256hex L stored) \<noteq> objectPath (cas m) (ChunkHash chunk)"
  shows "\<exists>k' m' w'. store_chunks L [chunk] [] k m w = (Inr ([ChunkHash chunk], k'), m', w')
        \<and> Has (cas m') (repo w') (sha256hex L stored)
        \<and> (files (repo w) (objectPath (cas m) (sha256hex L stored)) = None \<longrightarrow>
             files (repo w') (objectPath (cas m') (sha256hex L stored)) = Some stored)
        \<and> \<not> Has (cas m') (repo w') (ChunkHash chunk)
        \<and> Get L (cas m') (repo w') (ChunkHash chunk) = Inl (ObjectNotFound (ChunkHash chunk))"
  using assms by (rule store_chunk_compressed)

theorem stored_object_addressed_by_stored_bytes_witness:
  "compressor ex_manager_zstd = Some ex_zstd \<and> encryptor ex_manager_zstd = None
   \<and> Compress ex_lib ex_zstd (ChunkData (createChunk ex_lib [1, 2, 3] 0)) = Inr [0x28, 1, 2, 3]
   \<and> fault_free (repo ex_world)
   \<and> \<not> Has (cas ex_manager_zstd) (repo ex_world) (ChunkHash (createChunk ex_lib [1, 2, 3] 0))
   \<and> objectPath (cas ex_manager_zstd) (sha256hex ex_lib [0x28, 1, 2, 3]) \<noteq>
       objectPath (cas ex_manager_zstd) (ChunkHash (createChunk ex_lib [1, 2, 3] 0))
   \<and> (\<exists>k' m' w'.
         store_chunks ex_lib [createChunk ex_lib [1, 2, 3] 0] []
            \<lparr>newChunks = 0, totalChunks = 0, storedSize = 0\<rparr> ex_manager_zstd ex_world =
           (Inr ([ChunkHash (createChunk ex_lib [1, 2, 3] 0)], k'), m', w')
         \<and> Has (cas m') (repo w') (sha256hex ex_lib [0x28, 1, 2, 3])
         \<and> \<not> Has (cas m') (repo w') (ChunkHash (createChunk ex_lib [1, 2, 3] 0))
         \<and> Get ex_lib (cas m') (repo w') (ChunkHash (createChunk ex_lib [1, 2, 3] 0)) =
             Inl (ObjectNotFound (ChunkHash (createChunk ex_lib [1, 2, 3] 0))))"
proof -
  have a: "compressor ex_manager_zstd = Some ex_zstd"
    by (simp add: ex_manager_zstd_def)
  have b: "encryptor ex_manager_zstd = None"
    by (simp add: ex_manager_zstd_def ex_manager_def)
  have c: "Compress ex_lib ex_zstd (ChunkData (createChunk ex_lib [1, 2, 3] 0)) = Inr [0x28, 1, 2, 3]"
    by code_simp
  have d: "fault_free (repo ex_world)"
    by (simp add: fault_free_def ex_world_def ex_fs_def)
  have e: "\<not> Has (cas ex_manager_zstd) (repo ex_world) (ChunkHash (createChunk ex_lib [1, 2, 3] 0))"
    by code_simp
  have f: "objectPath (cas ex_manager_zstd) (sha256hex ex_lib [0x28, 1, 2, 3]) \<noteq>
       objectPath (cas ex_manager_zstd) (ChunkHash (createChunk ex_lib [1, 2, 3] 0))"
    by code_simp
  from stored_object_addressed_by_stored_bytes[OF a b c d e f,
         of "\<lparr>newChunks = 0, totalChunks = 0, storedSize = 0\<rparr>"] a b c d e f
  show ?thesis by blast
qed

end
